theory Spec2Isabelle
  imports Main "HOL-Library.AList"
begin

section \<open>JSON values\<close>

text \<open>
  The converters move JSON-shaped Python values around.  A JSON value is an element of
  \<open>json\<close>; an object keeps its members in insertion order, as a Python dict does.
  A number literal with a fraction or an exponent is kept as its lexeme.

  The converters take the two functions of the \<open>json\<close> module that they call as
  arguments, \<open>dumps\<close> and \<open>loads\<close>, and the general statements hold for every such
  pair.  \<open>json_dumps\<close> and \<open>json_loads\<close> below are the module's own, for the
  statements about given documents.
\<close>

datatype json =
    JNull
  | JBool bool
  | JInt int
  | JFloat string
  | JString string
  | JArray "json list"
  | JObject "(string \<times> json) list"

subsection \<open>Serialisation: \<open>json.dumps\<close>\<close>

text \<open>
  The standard library's serialiser with its default separators.  \<open>ensure_ascii\<close> is
  its flag of that name: when set, every character outside the printable ASCII range is
  written as a \<open>\u00XX\<close> escape; when not, only control characters, the quote and
  the backslash are escaped.  A number kept as a lexeme is written as that lexeme.
\<close>

definition hex_digit :: "nat \<Rightarrow> char" where
  "hex_digit n = ''0123456789abcdef'' ! (n mod 16)"

fun show_nat :: "nat \<Rightarrow> string" where
  "show_nat n =
     (if n < 10 then [''0123456789'' ! n]
      else show_nat (n div 10) @ [''0123456789'' ! (n mod 10)])"

declare show_nat.simps [simp del]

definition show_int :: "int \<Rightarrow> string" where
  "show_int i = (if i < 0 then CHR ''-'' # show_nat (nat (- i)) else show_nat (nat i))"

definition escape_char :: "bool \<Rightarrow> char \<Rightarrow> string" where
  "escape_char ensure_ascii c =
     (let n = (of_char c :: nat)
      in if c = CHR 0x22 then [CHR 0x5C, CHR 0x22]
         else if c = CHR 0x5C then [CHR 0x5C, CHR 0x5C]
         else if c = CHR 0x0A then [CHR 0x5C, CHR ''n'']
         else if c = CHR 0x0D then [CHR 0x5C, CHR ''r'']
         else if c = CHR 0x09 then [CHR 0x5C, CHR ''t'']
         else if c = CHR 0x08 then [CHR 0x5C, CHR ''b'']
         else if c = CHR 0x0C then [CHR 0x5C, CHR ''f'']
         else if n < 32 \<or> (ensure_ascii \<and> 126 < n)
           then [CHR 0x5C, CHR ''u'', CHR ''0'', CHR ''0'', hex_digit (n div 16), hex_digit n]
         else [c])"

definition dumps_string :: "bool \<Rightarrow> string \<Rightarrow> string" where
  "dumps_string ensure_ascii s =
     [CHR 0x22] @ concat (map (escape_char ensure_ascii) s) @ [CHR 0x22]"

fun join :: "string \<Rightarrow> string list \<Rightarrow> string" where
  "join sep [] = []"
| "join sep [x] = x"
| "join sep (x # y # ys) = x @ sep @ join sep (y # ys)"

primrec json_dumps :: "bool \<Rightarrow> json \<Rightarrow> string" where
  "json_dumps ensure_ascii JNull = ''null''"
| "json_dumps ensure_ascii (JBool b) = (if b then ''true'' else ''false'')"
| "json_dumps ensure_ascii (JInt i) = show_int i"
| "json_dumps ensure_ascii (JFloat x) = x"
| "json_dumps ensure_ascii (JString s) = dumps_string ensure_ascii s"
| "json_dumps ensure_ascii (JArray xs) =
     ''['' @ join '', '' (map (json_dumps ensure_ascii) xs) @ '']''"
| "json_dumps ensure_ascii (JObject kvs) =
     ''{'' @ join '', ''
              (map (\<lambda>kv. dumps_string ensure_ascii (fst kv) @ '': '' @ snd kv)
                 (map (map_prod id (json_dumps ensure_ascii)) kvs)) @ ''}''"

subsection \<open>Parsing: \<open>json.loads\<close>\<close>

text \<open>
  What a call of \<open>json.loads\<close> on a string does: it returns the value parsed, or raises
  \<open>JSONDecodeError\<close>, or raises another exception (the interpreter's \<open>RecursionError\<close>
  on deep nesting, its \<open>ValueError\<close> on an integer with too many digits), of which
  only the message matters here.
\<close>

datatype loads_result = Parsed json | DecodeError | Raised string

text \<open>
  The standard library's decoder, as a scanner that returns the value read and the rest
  of the input, or \<open>None\<close> where the decoder raises \<open>JSONDecodeError\<close>.  The three scanners
  for values, arrays and objects call each other; they run on a budget of calls, and
  \<open>json_loads\<close> gives them two calls for every character, which is more than a
  document can use (every second call at the latest consumes a character).
  An escape \<open>\uXXXX\<close> is decoded when its code point is below 256, the characters this
  development has; an escape beyond them is kept as it is written, the way a number with
  a fraction is, so that the documents accepted are those that the decoder accepts.  The
  interpreter's limits are not modelled: \<open>json_loads\<close> never gives \<open>Raised\<close>.
\<close>

definition is_digit :: "char \<Rightarrow> bool" where
  "is_digit c = (48 \<le> (of_char c :: nat) \<and> (of_char c :: nat) \<le> 57)"

definition digits_value :: "string \<Rightarrow> nat" where
  "digits_value ds = foldl (\<lambda>a c. 10 * a + (of_char c - 48)) 0 ds"

definition json_ws :: "char \<Rightarrow> bool" where
  "json_ws c = (c = CHR '' '' \<or> c = CHR 0x09 \<or> c = CHR 0x0A \<or> c = CHR 0x0D)"

definition skip_ws :: "string \<Rightarrow> string" where
  "skip_ws s = dropWhile json_ws s"

definition hex_value :: "char \<Rightarrow> nat option" where
  "hex_value c =
     (let n = (of_char c :: nat)
      in if 48 \<le> n \<and> n \<le> 57 then Some (n - 48)
         else if 65 \<le> n \<and> n \<le> 70 then Some (n - 55)
         else if 97 \<le> n \<and> n \<le> 102 then Some (n - 87)
         else None)"

definition unescape :: "char \<Rightarrow> char option" where
  "unescape e =
     (if e = CHR 0x22 then Some (CHR 0x22)
      else if e = CHR 0x5C then Some (CHR 0x5C)
      else if e = CHR ''/'' then Some (CHR ''/'')
      else if e = CHR ''b'' then Some (CHR 0x08)
      else if e = CHR ''f'' then Some (CHR 0x0C)
      else if e = CHR ''n'' then Some (CHR 0x0A)
      else if e = CHR ''r'' then Some (CHR 0x0D)
      else if e = CHR ''t'' then Some (CHR 0x09)
      else None)"

fun scan_string :: "string \<Rightarrow> string \<Rightarrow> (string \<times> string) option" where
  "scan_string acc [] = None"
| "scan_string acc [c] = (if c = CHR 0x22 then Some (acc, []) else None)"
| "scan_string acc (c # e # r) =
     (if c = CHR 0x22 then Some (acc, e # r)
      else if c = CHR 0x5C then
        (if e = CHR ''u'' then
           (case r of
              h1 # h2 # h3 # h4 # r' \<Rightarrow>
                (case (hex_value h1, hex_value h2, hex_value h3, hex_value h4) of
                   (Some a, Some b, Some c, Some d) \<Rightarrow>
                     (if a = 0 \<and> b = 0 then scan_string (acc @ [char_of (16 * c + d)]) r'
                      else scan_string (acc @ [CHR 0x5C, CHR ''u'', h1, h2, h3, h4]) r')
                 | _ \<Rightarrow> None)
            | _ \<Rightarrow> None)
         else (case unescape e of
                 Some x \<Rightarrow> scan_string (acc @ [x]) r
               | None \<Rightarrow> None))
      else if (of_char c :: nat) < 32 then None
      else scan_string (acc @ [c]) (e # r))"

definition strip_prefix :: "string \<Rightarrow> string \<Rightarrow> string option" where
  "strip_prefix p s = (if take (length p) s = p then Some (drop (length p) s) else None)"

text \<open>
  A number is the longest match of \<^verbatim>\<open>(-?(?:0|[1-9]\d*))(\.\d+)?([eE][-+]?\d+)?\<close>;
  with neither fraction nor exponent it is an integer.
\<close>

definition scan_int_part :: "string \<Rightarrow> (string \<times> string) option" where
  "scan_int_part s =
     (let (sign, s1) = (case s of c # r \<Rightarrow> if c = CHR ''-'' then ([c], r) else ([], s) | [] \<Rightarrow> ([], s))
      in case s1 of
           [] \<Rightarrow> None
         | c # r \<Rightarrow>
             if c = CHR ''0'' then Some (sign @ [c], r)
             else if is_digit c then Some (sign @ takeWhile is_digit s1, dropWhile is_digit s1)
             else None)"

definition scan_frac :: "string \<Rightarrow> string \<times> string" where
  "scan_frac s =
     (case s of
        c # r \<Rightarrow>
          if c = CHR ''.'' \<and> takeWhile is_digit r \<noteq> []
          then (c # takeWhile is_digit r, dropWhile is_digit r) else ([], s)
      | [] \<Rightarrow> ([], s))"

definition scan_exp :: "string \<Rightarrow> string \<times> string" where
  "scan_exp s =
     (case s of
        c # r \<Rightarrow>
          if c = CHR ''e'' \<or> c = CHR ''E'' then
            (let (sg, r1) = (case r of d # r' \<Rightarrow> if d = CHR ''-'' \<or> d = CHR ''+'' then ([d], r') else ([], r)
                                    | [] \<Rightarrow> ([], r))
             in if takeWhile is_digit r1 \<noteq> []
                then (c # sg @ takeWhile is_digit r1, dropWhile is_digit r1) else ([], s))
          else ([], s)
      | [] \<Rightarrow> ([], s))"

definition int_of_lexeme :: "string \<Rightarrow> int" where
  "int_of_lexeme l =
     (case l of
        c # r \<Rightarrow> if c = CHR ''-'' then - int (digits_value r) else int (digits_value l)
      | [] \<Rightarrow> 0)"

definition scan_number :: "string \<Rightarrow> (json \<times> string) option" where
  "scan_number s =
     (case scan_int_part s of
        Some (ip, r) \<Rightarrow>
          (let (fp, r1) = scan_frac r; (ep, r2) = scan_exp r1
           in if fp = [] \<and> ep = [] then Some (JInt (int_of_lexeme ip), r2)
              else Some (JFloat (ip @ fp @ ep), r2))
      | None \<Rightarrow>
          (case strip_prefix ''NaN'' s of Some r \<Rightarrow> Some (JFloat ''NaN'', r) | None \<Rightarrow>
          (case strip_prefix ''Infinity'' s of Some r \<Rightarrow> Some (JFloat ''Infinity'', r) | None \<Rightarrow>
          (case strip_prefix ''-Infinity'' s of Some r \<Rightarrow> Some (JFloat ''-Infinity'', r) | None \<Rightarrow>
           None))))"

fun obj_insert :: "string \<Rightarrow> json \<Rightarrow> (string \<times> json) list \<Rightarrow> (string \<times> json) list" where
  "obj_insert k v [] = [(k, v)]"
| "obj_insert k v ((k', v') # kvs) =
     (if k' = k then (k, v) # kvs else (k', v') # obj_insert k v kvs)"

fun scan_once :: "nat \<Rightarrow> string \<Rightarrow> (json \<times> string) option"
and scan_array :: "nat \<Rightarrow> string \<Rightarrow> json list \<Rightarrow> (json \<times> string) option"
and scan_object :: "nat \<Rightarrow> string \<Rightarrow> (string \<times> json) list \<Rightarrow> (json \<times> string) option" where
  "scan_once 0 s = None"
| "scan_once (Suc n) s =
     (case s of
        [] \<Rightarrow> None
      | c # r \<Rightarrow>
          if c = CHR 0x22 then
            (case scan_string [] r of Some (str, r') \<Rightarrow> Some (JString str, r') | None \<Rightarrow> None)
          else if c = CHR ''{'' then
            (case skip_ws r of
               [] \<Rightarrow> None
             | d # r' \<Rightarrow> if d = CHR ''}'' then Some (JObject [], r') else scan_object n (d # r') [])
          else if c = CHR ''['' then
            (case skip_ws r of
               [] \<Rightarrow> None
             | d # r' \<Rightarrow> if d = CHR '']'' then Some (JArray [], r') else scan_array n (d # r') [])
          else
            (case strip_prefix ''null'' s of Some r' \<Rightarrow> Some (JNull, r') | None \<Rightarrow>
            (case strip_prefix ''true'' s of Some r' \<Rightarrow> Some (JBool True, r') | None \<Rightarrow>
            (case strip_prefix ''false'' s of Some r' \<Rightarrow> Some (JBool False, r') | None \<Rightarrow>
             scan_number s))))"
| "scan_array 0 s vs = None"
| "scan_array (Suc n) s vs =
     (case scan_once n s of
        None \<Rightarrow> None
      | Some (v, r) \<Rightarrow>
          (case skip_ws r of
             [] \<Rightarrow> None
           | c # r' \<Rightarrow>
               if c = CHR '']'' then Some (JArray (vs @ [v]), r')
               else if c = CHR '','' then scan_array n (skip_ws r') (vs @ [v])
               else None))"
| "scan_object 0 s kvs = None"
| "scan_object (Suc n) s kvs =
     (case s of
        [] \<Rightarrow> None
      | q # r \<Rightarrow>
          if q \<noteq> CHR 0x22 then None
          else
            (case scan_string [] r of
               None \<Rightarrow> None
             | Some (k, r1) \<Rightarrow>
                 (case skip_ws r1 of
                    [] \<Rightarrow> None
                  | c # r2 \<Rightarrow>
                      if c \<noteq> CHR '':'' then None
                      else
                        (case scan_once n (skip_ws r2) of
                           None \<Rightarrow> None
                         | Some (v, r3) \<Rightarrow>
                             (case skip_ws r3 of
                                [] \<Rightarrow> None
                              | d # r4 \<Rightarrow>
                                  if d = CHR ''}'' then Some (JObject (obj_insert k v kvs), r4)
                                  else if d = CHR '','' then
                                    scan_object n (skip_ws r4) (obj_insert k v kvs)
                                  else None)))))"

definition json_loads :: "string \<Rightarrow> loads_result" where
  "json_loads s =
     (case scan_once (2 * length s + 2) (skip_ws s) of
        None \<Rightarrow> DecodeError
      | Some (v, r) \<Rightarrow> if skip_ws r = [] then Parsed v else DecodeError)"

section \<open>Strings\<close>

text \<open>
  A string is a list of characters, each standing for one code point below 256.
  \<open>is_space\<close> is Python's notion of white space on that range; it is the one used both
  by \<open>str.strip()\<close> and by \<open>\s\<close> in a regular expression over \<open>str\<close>.
\<close>

definition is_space :: "char \<Rightarrow> bool" where
  "is_space c =
     (let n = (of_char c :: nat)
      in (9 \<le> n \<and> n \<le> 13) \<or> (28 \<le> n \<and> n \<le> 32) \<or> n = 133 \<or> n = 160)"

definition strip :: "string \<Rightarrow> string" where
  "strip s = rev (dropWhile is_space (rev (dropWhile is_space s)))"

section \<open>The request converter: \<open>GeminiToOpenAIConverter\<close>\<close>

subsection \<open>Input: contents and parts\<close>

text \<open>
  A part of a content is a dict, a bare string, or something else (which both loops skip).
  A dict part is read only through the keys \<open>text\<close>, \<open>functionCall\<close> and
  \<open>functionResponse\<close>; each may be present or not, independently of the others.
  The name and the payload of a call or of a response are read with \<open>.get\<close>, so each
  may be absent as well.
\<close>

record function_call =
  fc_name :: "string option"
  fc_args :: "json option"

record function_response =
  fr_name :: "string option"
  fr_response :: "json option"

record part_dict =
  p_text :: "string option"
  p_functionCall :: "function_call option"
  p_functionResponse :: "function_response option"

datatype part = PartDict part_dict | PartStr string | PartOther

text \<open>
  A content has an optional \<open>role\<close>; \<open>content.get("parts", [])\<close> makes an absent list of
  parts the empty list, so the parts are a plain list.
\<close>

record content =
  content_role :: "string option"
  content_parts :: "part list"

subsection \<open>Output: messages\<close>

record tool_call =
  tc_id :: string
  tc_type :: string
  tc_function_name :: string
  tc_function_arguments :: string

text \<open>
  The three shapes of dict that \<open>convert_contents_to_messages\<close> appends:
  \<open>{"role": "user", "content": c}\<close>,
  \<open>{"role": "tool", "tool_call_id": i, "content": c}\<close> and
  \<open>{"role": "assistant", "content": c or None}\<close> with an optional key \<open>tool_calls\<close>.
\<close>

datatype message =
    UserMessage string
  | ToolMessage string string
  | AssistantMessage "string option" "tool_call list option"

subsection \<open>\<open>convert_contents_to_messages\<close>\<close>

text \<open>Lines 46 to 50: the tool message built from a \<open>functionResponse\<close>.\<close>

definition tool_message :: "(json \<Rightarrow> string) \<Rightarrow> function_response \<Rightarrow> message" where
  "tool_message dumps func_response =
     ToolMessage
       ((case fr_name func_response of None \<Rightarrow> ''unknown'' | Some n \<Rightarrow> n) @ '':0'')
       (dumps (case fr_response func_response of None \<Rightarrow> JObject [] | Some r \<Rightarrow> r))"

text \<open>
  Lines 39 to 53: the loop over the parts of a user content, with its two accumulators
  \<open>combined_text\<close> and \<open>tool_messages\<close>.  \<open>dumps\<close> stands for \<open>json.dumps\<close>.
\<close>

fun user_parts ::
  "(json \<Rightarrow> string) \<Rightarrow> part list \<Rightarrow> string \<times> message list \<Rightarrow> string \<times> message list" where
  "user_parts dumps [] acc = acc"
| "user_parts dumps (p # ps) (combined_text, tool_messages) =
     user_parts dumps ps
       (case p of
          PartDict d \<Rightarrow>
            (case p_text d of
               Some t \<Rightarrow> (combined_text @ t, tool_messages)
             | None \<Rightarrow>
                 (case p_functionResponse d of
                    Some func_response \<Rightarrow>
                      (combined_text, tool_messages @ [tool_message dumps func_response])
                  | None \<Rightarrow> (combined_text, tool_messages)))
        | PartStr s \<Rightarrow> (combined_text @ s, tool_messages)
        | PartOther \<Rightarrow> (combined_text, tool_messages))"

text \<open>
  Lines 79 to 92: the search for a matching \<open>functionResponse\<close> in the contents after
  index \<open>i\<close>.  The role is read with \<open>.get("role")\<close>, without a default, and the two
  names with \<open>.get("name")\<close>: two absent names are equal.
\<close>

definition part_responds :: "function_call \<Rightarrow> part \<Rightarrow> bool" where
  "part_responds func_call next_part =
     (case next_part of
        PartDict d \<Rightarrow>
          (case p_functionResponse d of
             Some r \<Rightarrow> fc_name func_call = fr_name r
           | None \<Rightarrow> False)
      | PartStr s \<Rightarrow> False
      | PartOther \<Rightarrow> False)"

definition has_response :: "content list \<Rightarrow> nat \<Rightarrow> function_call \<Rightarrow> bool" where
  "has_response contents i func_call =
     list_ex (\<lambda>next_content.
         content_role next_content = Some ''user'' \<and>
         list_ex (part_responds func_call) (content_parts next_content))
       (drop (Suc i) contents)"

definition is_last_message :: "content list \<Rightarrow> nat \<Rightarrow> bool" where
  "is_last_message contents i = (int i = int (length contents) - 1)"

text \<open>Lines 100 to 109: the tool call built from a \<open>functionCall\<close>.\<close>

definition make_tool_call :: "(json \<Rightarrow> string) \<Rightarrow> function_call \<Rightarrow> tool_call" where
  "make_tool_call dumps func_call =
     \<lparr> tc_id = (case fc_name func_call of None \<Rightarrow> ''unknown'' | Some n \<Rightarrow> n) @ '':0'',
       tc_type = ''function'',
       tc_function_name = (case fc_name func_call of None \<Rightarrow> [] | Some n \<Rightarrow> n),
       tc_function_arguments =
         dumps (case fc_args func_call of None \<Rightarrow> JObject [] | Some a \<Rightarrow> a) \<rparr>"

text \<open>
  Lines 70 to 112: the loop over the parts of a model content at index \<open>i\<close>, with its
  accumulators \<open>combined_text\<close> and \<open>tool_calls\<close>.
\<close>

fun model_parts ::
  "(json \<Rightarrow> string) \<Rightarrow> content list \<Rightarrow> nat \<Rightarrow> part list \<Rightarrow>
     string \<times> tool_call list \<Rightarrow> string \<times> tool_call list" where
  "model_parts dumps contents i [] acc = acc"
| "model_parts dumps contents i (p # ps) (combined_text, tool_calls) =
     model_parts dumps contents i ps
       (case p of
          PartDict d \<Rightarrow>
            (case p_text d of
               Some t \<Rightarrow> (combined_text @ t, tool_calls)
             | None \<Rightarrow>
                 (case p_functionCall d of
                    Some func_call \<Rightarrow>
                      if is_last_message contents i \<and> \<not> has_response contents i func_call
                      then (combined_text, tool_calls)
                      else (combined_text, tool_calls @ [make_tool_call dumps func_call])
                  | None \<Rightarrow> (combined_text, tool_calls)))
        | PartStr s \<Rightarrow> (combined_text @ s, tool_calls)
        | PartOther \<Rightarrow> (combined_text, tool_calls))"

text \<open>
  One iteration of the outer loop (lines 31 to 123): the messages appended for the
  content at index \<open>i\<close>.  A role other than \<open>user\<close> and \<open>model\<close> appends nothing.
\<close>

definition convert_content ::
  "(json \<Rightarrow> string) \<Rightarrow> content list \<Rightarrow> nat \<Rightarrow> content \<Rightarrow> message list" where
  "convert_content dumps contents i c =
     (let role = (case content_role c of None \<Rightarrow> ''user'' | Some r \<Rightarrow> r)
      in if role = ''user'' then
           (case user_parts dumps (content_parts c) ([], []) of
              (combined_text, tool_messages) \<Rightarrow>
                (if strip combined_text \<noteq> [] then [UserMessage (strip combined_text)] else [])
                @ tool_messages)
         else if role = ''model'' then
           (case model_parts dumps contents i (content_parts c) ([], []) of
              (combined_text, tool_calls) \<Rightarrow>
                if strip combined_text \<noteq> [] \<or> tool_calls \<noteq> [] then
                  [AssistantMessage
                     (if strip combined_text \<noteq> [] then Some (strip combined_text) else None)
                     (if tool_calls \<noteq> [] then Some tool_calls else None)]
                else [])
         else [])"

fun convert_loop ::
  "(json \<Rightarrow> string) \<Rightarrow> content list \<Rightarrow> nat \<Rightarrow> content list \<Rightarrow> message list \<Rightarrow> message list" where
  "convert_loop dumps contents i [] messages = messages"
| "convert_loop dumps contents i (c # cs) messages =
     convert_loop dumps contents (Suc i) cs (messages @ convert_content dumps contents i c)"

definition convert_contents_to_messages ::
  "(json \<Rightarrow> string) \<Rightarrow> content list \<Rightarrow> message list" where
  "convert_contents_to_messages dumps contents = convert_loop dumps contents 0 contents []"

subsection \<open>\<open>convert_config_to_openai_params\<close>\<close>

text \<open>
  The configuration is an optional dict, read by key.  \<open>not config\<close> holds for
  \<open>None\<close> and for the empty dict.
\<close>

definition convert_config_to_openai_params ::
  "(string \<rightharpoonup> json) option \<Rightarrow> (string \<rightharpoonup> json)" where
  "convert_config_to_openai_params config =
     (case config of
        None \<Rightarrow> Map.empty
      | Some c \<Rightarrow>
          if c = Map.empty then Map.empty
          else
            (let openai_params = Map.empty;
                 openai_params =
                   (case c ''temperature'' of
                      Some v \<Rightarrow> openai_params(''temperature'' \<mapsto> v)
                    | None \<Rightarrow> openai_params);
                 openai_params =
                   (case c ''maxOutputTokens'' of
                      Some v \<Rightarrow> openai_params(''max_tokens'' \<mapsto> v)
                    | None \<Rightarrow> openai_params);
                 openai_params =
                   (case c ''topP'' of
                      Some v \<Rightarrow> openai_params(''top_p'' \<mapsto> v)
                    | None \<Rightarrow> openai_params);
                 openai_params =
                   (case c ''stopSequences'' of
                      Some v \<Rightarrow> openai_params(''stop'' \<mapsto> v)
                    | None \<Rightarrow> openai_params)
             in openai_params))"

section \<open>The response converter: \<open>OpenAIToGeminiConverter\<close>\<close>

subsection \<open>\<open>clean_markdown_json\<close>\<close>

text \<open>
  \<open>re.match\<close> of \<^verbatim>\<open>^```json\s*\n(.*?)\n```$\<close> with \<open>re.DOTALL\<close>, as the
  backtracking search it is.  \<open>fence_end\<close> is \<^verbatim>\<open>\n```$\<close>: without
  \<open>re.MULTILINE\<close>, \<open>$\<close> matches at the end of the string and before a newline that
  ends it.  \<open>match_body\<close> is the lazy group followed by the closing fence: the group
  grows by one character until the rest is the closing fence.  \<open>match_ws\<close> is
  \<^verbatim>\<open>\s*\n\<close> followed by \<open>match_body\<close>: the greedy star first takes a white-space
  character, and gives it back only when the rest fails.
\<close>

definition fence_end :: "string \<Rightarrow> bool" where
  "fence_end r = (r = CHR 0x0A # ''```'' \<or> r = CHR 0x0A # ''```'' @ [CHR 0x0A])"

fun match_body :: "string \<Rightarrow> string \<Rightarrow> string option" where
  "match_body acc [] = None"
| "match_body acc (c # r) =
     (if fence_end (c # r) then Some acc else match_body (acc @ [c]) r)"

fun match_ws :: "string \<Rightarrow> string option" where
  "match_ws [] = None"
| "match_ws (c # r) =
     (if is_space c then
        (case match_ws r of
           Some b \<Rightarrow> Some b
         | None \<Rightarrow> if c = CHR 0x0A then match_body [] r else None)
      else None)"

definition json_pattern_match :: "string \<Rightarrow> string option" where
  "json_pattern_match s =
     (case strip_prefix ''```json'' s of
        Some r \<Rightarrow> match_ws r
      | None \<Rightarrow> None)"

definition clean_markdown_json :: "string \<Rightarrow> string" where
  "clean_markdown_json content =
     (case json_pattern_match (strip content) of
        Some json_content \<Rightarrow> json_content
      | None \<Rightarrow> content)"

subsection \<open>The backend's response and the converted response\<close>

record oa_function =
  fn_name :: string
  fn_arguments :: string

record oa_tool_call =
  tcall_function :: oa_function

record oa_message =
  msg_content :: "string option"
  msg_tool_calls :: "oa_tool_call list option"

record oa_choice =
  ch_message :: oa_message
  ch_finish_reason :: "string option"

record oa_usage =
  prompt_tokens :: int
  completion_tokens :: int
  total_tokens :: int

record oa_response =
  rsp_choices :: "oa_choice list"
  rsp_usage :: "oa_usage option"

datatype gpart = TextPart string | FunctionCallPart string json

record usage_metadata =
  promptTokenCount :: int
  candidatesTokenCount :: int
  totalTokenCount :: int
  promptTokensDetails :: "(string \<times> int) list"

text \<open>
  A candidate is \<open>{"content": {"parts": ..., "role": ...}, "finishReason": ...,
  "index": ..., "safetyRatings": ...}\<close>; a converted response has the key
  \<open>candidates\<close> and, when it is not a streaming chunk, \<open>promptFeedback\<close> and possibly
  \<open>usageMetadata\<close>.
\<close>

record candidate =
  out_parts :: "gpart list"
  out_role :: string
  finishReason :: "string option"
  cand_index :: int
  safetyRatings :: json

record gemini_response =
  candidates :: "candidate list"
  promptFeedback :: "json option"
  usageMetadata :: "usage_metadata option"

datatype error = IndexError | JSONDecodeError | OtherError string

subsection \<open>\<open>convert_response_to_gemini\<close>\<close>

text \<open>Lines 217 to 224: the table of finish reasons and its default.\<close>

definition finish_reason_mapping :: "(string \<times> string) list" where
  "finish_reason_mapping =
     [(''stop'', ''STOP''),
      (''length'', ''MAX_TOKENS''),
      (''content_filter'', ''SAFETY''),
      (''tool_calls'', ''STOP''),
      (''function_call'', ''STOP'')]"

definition map_finish_reason :: "string option \<Rightarrow> string" where
  "map_finish_reason finish_reason =
     (case finish_reason of
        None \<Rightarrow> ''STOP''
      | Some r \<Rightarrow> (case map_of finish_reason_mapping r of Some m \<Rightarrow> m | None \<Rightarrow> ''STOP''))"

text \<open>
  Lines 206 to 214: one part for every tool call; whatever \<open>json.loads\<close> raises,
  nothing here catches it.
\<close>

fun tool_call_parts ::
  "(string \<Rightarrow> loads_result) \<Rightarrow> oa_tool_call list \<Rightarrow> error + gpart list" where
  "tool_call_parts loads [] = Inr []"
| "tool_call_parts loads (tool_call # rest) =
     (case loads (fn_arguments (tcall_function tool_call)) of
        DecodeError \<Rightarrow> Inl JSONDecodeError
      | Raised m \<Rightarrow> Inl (OtherError m)
      | Parsed args \<Rightarrow>
          (case tool_call_parts loads rest of
             Inl e \<Rightarrow> Inl e
           | Inr ps \<Rightarrow> Inr (FunctionCallPart (fn_name (tcall_function tool_call)) args # ps)))"

definition convert_response_to_gemini ::
  "(string \<Rightarrow> loads_result) \<Rightarrow> oa_response \<Rightarrow> error + gemini_response" where
  "convert_response_to_gemini loads response =
     (case rsp_choices response of
        [] \<Rightarrow> Inl IndexError
      | choice # others \<Rightarrow>
          (let message = ch_message choice;
               text_parts =
                 (case msg_content message of
                    Some c \<Rightarrow> if c \<noteq> [] then [TextPart (clean_markdown_json c)] else []
                  | None \<Rightarrow> [])
           in case tool_call_parts loads
                     (case msg_tool_calls message of Some tcs \<Rightarrow> tcs | None \<Rightarrow> []) of
                Inl e \<Rightarrow> Inl e
              | Inr call_parts \<Rightarrow>
                  Inr \<lparr> candidates =
                          [\<lparr> out_parts = text_parts @ call_parts,
                             out_role = ''model'',
                             finishReason = Some (map_finish_reason (ch_finish_reason choice)),
                             cand_index = 0,
                             safetyRatings = JNull \<rparr>],
                        promptFeedback = Some (JObject [(''safetyRatings'', JNull)]),
                        usageMetadata =
                          (case rsp_usage response of
                             None \<Rightarrow> None
                           | Some u \<Rightarrow>
                               Some \<lparr> promptTokenCount = prompt_tokens u,
                                      candidatesTokenCount = completion_tokens u,
                                      totalTokenCount = total_tokens u,
                                      promptTokensDetails = [(''TEXT'', prompt_tokens u)] \<rparr>) \<rparr>))"

section \<open>The streaming accumulator\<close>

subsection \<open>Chunks of the backend's stream\<close>

record delta_function =
  df_name :: "string option"
  df_arguments :: "string option"

record delta_tool_call =
  dtc_index :: "int option"
  dtc_id :: "string option"
  dtc_function :: "delta_function option"

record delta =
  delta_content :: "string option"
  delta_tool_calls :: "delta_tool_call list option"

record stream_choice =
  sc_delta :: "delta option"
  sc_finish_reason :: "string option"

record chunk =
  chunk_choices :: "stream_choice list"

subsection \<open>The accumulation state\<close>

text \<open>
  \<open>accumulated_tool_calls\<close> is a dict from \<open>tool_<index>\<close> to an entry with the keys
  \<open>id\<close>, \<open>name\<close> and \<open>arguments\<close>.  A Python dict keeps its keys in the order of their
  insertion, which is the order in which the flush at the end of the stream visits them:
  the state is an association list, where \<open>AList.update\<close> overwrites a key in place or
  adds it at the end, and \<open>AList.delete\<close> removes it.
\<close>

record acc_entry =
  acc_id :: string
  acc_name :: string
  acc_arguments :: string

type_synonym acc_state = "(string \<times> acc_entry) list"

definition truthy :: "string option \<Rightarrow> bool" where
  "truthy s = (case s of None \<Rightarrow> False | Some x \<Rightarrow> x \<noteq> [])"

definition tool_call_key :: "delta_tool_call \<Rightarrow> string" where
  "tool_call_key tool_call =
     ''tool_'' @ show_int (case dtc_index tool_call of Some i \<Rightarrow> i | None \<Rightarrow> 0)"

text \<open>
  Lines 297 to 315: the entry of the tool call's key after the three updates, from the
  entry found there (or the fresh one that line 299 creates).
\<close>

definition accumulate_entry :: "acc_entry \<Rightarrow> delta_tool_call \<Rightarrow> acc_entry" where
  "accumulate_entry entry tool_call =
     (let entry =
            (if truthy (dtc_id tool_call) \<and> acc_id entry = []
             then entry\<lparr>acc_id := the (dtc_id tool_call)\<rparr> else entry);
          entry =
            (case dtc_function tool_call of
               Some f \<Rightarrow>
                 if truthy (df_name f) \<and> acc_name entry = []
                 then entry\<lparr>acc_name := the (df_name f)\<rparr> else entry
             | None \<Rightarrow> entry);
          entry =
            (case dtc_function tool_call of
               Some f \<Rightarrow>
                 if truthy (df_arguments f)
                 then entry\<lparr>acc_arguments := acc_arguments entry @ the (df_arguments f)\<rparr>
                 else entry
             | None \<Rightarrow> entry)
      in entry)"

text \<open>
  Lines 293 to 336: the body of the loop over the tool calls of a delta.  It takes and
  returns the dict and the list \<open>parts\<close>.  \<open>loads\<close> stands for \<open>json.loads\<close>: its
  \<open>JSONDecodeError\<close> is caught by the \<open>except\<close> clause, after which nothing happens;
  any other exception leaves the function, and the result is then its message.
\<close>

definition accumulate_tool_call ::
  "(string \<Rightarrow> loads_result) \<Rightarrow> acc_state \<times> gpart list \<Rightarrow> delta_tool_call \<Rightarrow>
     string + acc_state \<times> gpart list" where
  "accumulate_tool_call loads st tool_call =
     (case st of (accumulated_tool_calls, parts) \<Rightarrow>
        (let key = tool_call_key tool_call;
             entry =
               accumulate_entry
                 (case map_of accumulated_tool_calls key of
                    None \<Rightarrow> \<lparr> acc_id = [], acc_name = [], acc_arguments = [] \<rparr>
                  | Some e \<Rightarrow> e)
                 tool_call;
             accumulated_tool_calls = AList.update key entry accumulated_tool_calls;
             args_str = acc_arguments entry;
             name = acc_name entry
         in if args_str \<noteq> [] \<and> name \<noteq> [] then
              (case loads args_str of
                 Parsed parsed_args \<Rightarrow>
                   Inr (AList.delete key accumulated_tool_calls,
                        parts @ [FunctionCallPart name parsed_args])
               | DecodeError \<Rightarrow> Inr (accumulated_tool_calls, parts)
               | Raised m \<Rightarrow> Inl m)
            else Inr (accumulated_tool_calls, parts)))"

text \<open>Line 292: the loop itself, which an exception leaves at once.\<close>

fun accumulate_tool_calls ::
  "(string \<Rightarrow> loads_result) \<Rightarrow> acc_state \<times> gpart list \<Rightarrow> delta_tool_call list \<Rightarrow>
     string + acc_state \<times> gpart list" where
  "accumulate_tool_calls loads st [] = Inr st"
| "accumulate_tool_calls loads st (tool_call # rest) =
     (case accumulate_tool_call loads st tool_call of
        Inl m \<Rightarrow> Inl m
      | Inr st' \<Rightarrow> accumulate_tool_calls loads st' rest)"

text \<open>Lines 342 to 347 and 352: the table of the streaming path, which has no default.\<close>

definition stream_finish_reason_mapping :: "(string \<times> string) list" where
  "stream_finish_reason_mapping =
     [(''stop'', ''STOP''),
      (''length'', ''MAX_TOKENS''),
      (''content_filter'', ''SAFETY''),
      (''tool_calls'', ''STOP'')]"

definition map_stream_finish_reason :: "string option \<Rightarrow> string option" where
  "map_stream_finish_reason finish_reason =
     (if truthy finish_reason then map_of stream_finish_reason_mapping (the finish_reason)
      else None)"

subsection \<open>\<open>convert_streaming_chunk_to_gemini\<close>\<close>

text \<open>
  The function returns its optional result; the dict it mutates is returned beside it.
  When an exception leaves the function, the result is the exception's message.
\<close>

definition convert_streaming_chunk_to_gemini ::
  "(string \<Rightarrow> loads_result) \<Rightarrow> chunk \<Rightarrow> acc_state \<Rightarrow>
     string + gemini_response option \<times> acc_state" where
  "convert_streaming_chunk_to_gemini loads chunk accumulated_tool_calls =
     (case chunk_choices chunk of
        [] \<Rightarrow> Inr (None, accumulated_tool_calls)
      | choice # others \<Rightarrow>
          (case sc_delta choice of
             None \<Rightarrow> Inr (None, accumulated_tool_calls)
           | Some delta \<Rightarrow>
               (let parts =
                      (if truthy (delta_content delta)
                       then [TextPart (the (delta_content delta))] else [])
                in case (case delta_tool_calls delta of
                           Some tcs \<Rightarrow>
                             accumulate_tool_calls loads (accumulated_tool_calls, parts) tcs
                         | None \<Rightarrow> Inr (accumulated_tool_calls, parts)) of
                     Inl m \<Rightarrow> Inl m
                   | Inr (accumulated_tool_calls, parts) \<Rightarrow>
                       if parts = [] \<and> \<not> truthy (sc_finish_reason choice)
                       then Inr (None, accumulated_tool_calls)
                       else
                         Inr (Some \<lparr> candidates =
                                       [\<lparr> out_parts = parts,
                                          out_role = ''model'',
                                          finishReason =
                                            map_stream_finish_reason (sc_finish_reason choice),
                                          cand_index = 0,
                                          safetyRatings = JArray [] \<rparr>],
                                     promptFeedback = None,
                                     usageMetadata = None \<rparr>,
                              accumulated_tool_calls))))"

section \<open>The service: \<open>GeminiProxyService.stream_generate_content\<close>\<close>

text \<open>The dict of a converted response as a JSON value, for \<open>json.dumps\<close>.\<close>

definition part_json :: "gpart \<Rightarrow> json" where
  "part_json p =
     (case p of
        TextPart t \<Rightarrow> JObject [(''text'', JString t)]
      | FunctionCallPart name args \<Rightarrow>
          JObject [(''functionCall'', JObject [(''name'', JString name), (''args'', args)])])"

definition candidate_json :: "candidate \<Rightarrow> json" where
  "candidate_json c =
     JObject
       [(''content'',
           JObject [(''parts'', JArray (map part_json (out_parts c))),
                    (''role'', JString (out_role c))]),
        (''finishReason'', (case finishReason c of None \<Rightarrow> JNull | Some r \<Rightarrow> JString r)),
        (''index'', JInt (cand_index c)),
        (''safetyRatings'', safetyRatings c)]"

definition usage_json :: "usage_metadata \<Rightarrow> json" where
  "usage_json u =
     JObject
       [(''promptTokenCount'', JInt (promptTokenCount u)),
        (''candidatesTokenCount'', JInt (candidatesTokenCount u)),
        (''totalTokenCount'', JInt (totalTokenCount u)),
        (''promptTokensDetails'',
           JArray (map (\<lambda>d. JObject [(''modality'', JString (fst d)), (''tokenCount'', JInt (snd d))])
                     (promptTokensDetails u)))]"

definition response_json :: "gemini_response \<Rightarrow> json" where
  "response_json g =
     JObject
       ([(''candidates'', JArray (map candidate_json (candidates g)))]
        @ (case promptFeedback g of None \<Rightarrow> [] | Some p \<Rightarrow> [(''promptFeedback'', p)])
        @ (case usageMetadata g of None \<Rightarrow> [] | Some u \<Rightarrow> [(''usageMetadata'', usage_json u)]))"

text \<open>
  Lines 579, 618 and 654: a frame is \<open>data: \<close>, the serialised value and two newlines.
  \<open>dumps\<close> stands for \<open>json.dumps\<close> with \<open>ensure_ascii=False\<close>.
\<close>

definition sse_frame :: "(json \<Rightarrow> string) \<Rightarrow> json \<Rightarrow> string" where
  "sse_frame dumps j = ''data: '' @ dumps j @ [CHR 0x0A, CHR 0x0A]"

definition error_response :: "string \<Rightarrow> json" where
  "error_response e =
     JObject [(''error'', JObject [(''message'', JString e), (''type'', JString ''internal_error'')])]"

text \<open>
  Lines 550 to 579: the loop over the chunks of the backend's stream.  It returns the
  converted chunks it yields, in order, and then either the dict at the end or the
  message of the exception that left the conversion of a chunk; the chunks after that
  one are not read.
\<close>

fun stream_chunks ::
  "(string \<Rightarrow> loads_result) \<Rightarrow> chunk list \<Rightarrow> acc_state \<Rightarrow>
     gemini_response list \<times> (string + acc_state)" where
  "stream_chunks loads [] accumulated_tool_calls = ([], Inr accumulated_tool_calls)"
| "stream_chunks loads (chunk # rest) accumulated_tool_calls =
     (case convert_streaming_chunk_to_gemini loads chunk accumulated_tool_calls of
        Inl m \<Rightarrow> ([], Inl m)
      | Inr (gemini_chunk, accumulated_tool_calls) \<Rightarrow>
          (case stream_chunks loads rest accumulated_tool_calls of
             (yielded, final) \<Rightarrow>
               ((case gemini_chunk of None \<Rightarrow> [] | Some g \<Rightarrow> [g]) @ yielded, final)))"

text \<open>Lines 591 to 606: the chunk that the flush yields for an entry that parses.\<close>

definition final_gemini_chunk :: "string \<Rightarrow> json \<Rightarrow> gemini_response" where
  "final_gemini_chunk name parsed_args =
     \<lparr> candidates =
         [\<lparr> out_parts = [FunctionCallPart name parsed_args],
            out_role = ''model'',
            finishReason = Some ''STOP'',
            cand_index = 0,
            safetyRatings = JArray [] \<rparr>],
       promptFeedback = None,
       usageMetadata = None \<rparr>"

text \<open>
  Lines 582 to 627: the flush at the end of the stream, a loop over the values of the
  dict.  A \<open>JSONDecodeError\<close> is caught and the loop goes on; another exception leaves
  the loop.  The result is the chunks yielded and the message of that exception, if any.
\<close>

fun flush_tool_calls ::
  "(string \<Rightarrow> loads_result) \<Rightarrow> acc_entry list \<Rightarrow> gemini_response list \<times> string option" where
  "flush_tool_calls loads [] = ([], None)"
| "flush_tool_calls loads (tool_data # rest) =
     (if acc_name tool_data \<noteq> [] \<and> acc_arguments tool_data \<noteq> [] then
        (case loads (acc_arguments tool_data) of
           Parsed parsed_args \<Rightarrow>
             (case flush_tool_calls loads rest of
                (yielded, raised) \<Rightarrow>
                  (final_gemini_chunk (acc_name tool_data) parsed_args # yielded, raised))
         | DecodeError \<Rightarrow> flush_tool_calls loads rest
         | Raised m \<Rightarrow> ([], Some m))
      else flush_tool_calls loads rest)"

text \<open>
  Lines 484 to 636: the body of the \<open>try\<close> statement, as the chunks whose frames it
  yields and the message of the exception that leaves it, if one does.  The backend is
  the external client: \<open>delivered\<close> are the chunks its stream hands over, and \<open>failure\<close>
  is the message of the exception that the client raises after them, if it does (before
  the first chunk when the call that opens the stream raises).  An exception can also
  leave the conversion of a chunk or the flush.  The request that the function builds
  first reaches the output only through the backend, and the calls of the logger return
  nothing.
\<close>

definition stream_body ::
  "(string \<Rightarrow> loads_result) \<Rightarrow> chunk list \<Rightarrow> string option \<Rightarrow>
     gemini_response list \<times> string option" where
  "stream_body loads delivered failure =
     (case stream_chunks loads delivered [] of
        (yielded, Inl m) \<Rightarrow> (yielded, Some m)
      | (yielded, Inr accumulated_tool_calls) \<Rightarrow>
          (case failure of
             Some m \<Rightarrow> (yielded, Some m)
           | None \<Rightarrow>
               (case flush_tool_calls loads (map snd accumulated_tool_calls) of
                  (flushed, raised) \<Rightarrow> (yielded @ flushed, raised))))"

text \<open>
  The generator, as the list of the frames it yields: those of the body, and the frame of
  the handler (lines 638 to 654) when an exception left the body.
\<close>

definition stream_generate_content ::
  "(string \<Rightarrow> loads_result) \<Rightarrow> (json \<Rightarrow> string) \<Rightarrow> chunk list \<Rightarrow> string option \<Rightarrow>
     string list" where
  "stream_generate_content loads dumps delivered failure =
     (case stream_body loads delivered failure of
        (yielded, raised) \<Rightarrow>
          map (\<lambda>g. sse_frame dumps (response_json g)) yielded
          @ (case raised of
               None \<Rightarrow> []
             | Some e \<Rightarrow> [sse_frame dumps (error_response e)]))"

section \<open>Notions used in the statements\<close>

text \<open>
  What the two loops over parts read: the text of a part, and the parts that reach the
  \<open>functionResponse\<close> branch (of a user content) or the \<open>functionCall\<close> branch (of a
  model content), which are the dict parts without the key \<open>text\<close> that have that key.
\<close>

definition part_text :: "part \<Rightarrow> string" where
  "part_text p =
     (case p of
        PartDict d \<Rightarrow> (case p_text d of Some t \<Rightarrow> t | None \<Rightarrow> [])
      | PartStr s \<Rightarrow> s
      | PartOther \<Rightarrow> [])"

definition function_responses :: "part list \<Rightarrow> function_response list" where
  "function_responses ps =
     List.map_filter
       (\<lambda>p. case p of
               PartDict d \<Rightarrow> (case p_text d of Some t \<Rightarrow> None | None \<Rightarrow> p_functionResponse d)
             | PartStr s \<Rightarrow> None
             | PartOther \<Rightarrow> None) ps"

definition function_calls :: "part list \<Rightarrow> function_call list" where
  "function_calls ps =
     List.map_filter
       (\<lambda>p. case p of
               PartDict d \<Rightarrow> (case p_text d of Some t \<Rightarrow> None | None \<Rightarrow> p_functionCall d)
             | PartStr s \<Rightarrow> None
             | PartOther \<Rightarrow> None) ps"

definition tool_calls_of :: "message \<Rightarrow> tool_call list" where
  "tool_calls_of m =
     (case m of
        AssistantMessage c (Some tcs) \<Rightarrow> tcs
      | AssistantMessage c None \<Rightarrow> []
      | UserMessage c \<Rightarrow> []
      | ToolMessage i c \<Rightarrow> [])"

definition is_tool_message :: "message \<Rightarrow> bool" where
  "is_tool_message m = (case m of ToolMessage i c \<Rightarrow> True | _ \<Rightarrow> False)"

definition role_of :: "content \<Rightarrow> string" where
  "role_of c = (case content_role c of None \<Rightarrow> ''user'' | Some r \<Rightarrow> r)"

text \<open>
  For the accumulator: the entry found under a key (the fresh one when the key is new);
  the three outcomes of \<open>loads\<close> on a buffer; when an entry is complete, which is the
  test of lines 322 and 323 and of the flush (line 587), and when that test raises; what
  a delta contributes to the three fields; a chunk that carries one tool-call delta and
  neither text nor finish reason.
\<close>

definition entry_at :: "acc_state \<Rightarrow> string \<Rightarrow> acc_entry" where
  "entry_at accumulated_tool_calls key =
     (case map_of accumulated_tool_calls key of
        None \<Rightarrow> \<lparr> acc_id = [], acc_name = [], acc_arguments = [] \<rparr>
      | Some e \<Rightarrow> e)"

definition parses :: "(string \<Rightarrow> loads_result) \<Rightarrow> string \<Rightarrow> bool" where
  "parses loads s = (case loads s of Parsed v \<Rightarrow> True | DecodeError \<Rightarrow> False | Raised m \<Rightarrow> False)"

definition parsed :: "(string \<Rightarrow> loads_result) \<Rightarrow> string \<Rightarrow> json" where
  "parsed loads s = (case loads s of Parsed v \<Rightarrow> v | DecodeError \<Rightarrow> JNull | Raised m \<Rightarrow> JNull)"

definition raises :: "(string \<Rightarrow> loads_result) \<Rightarrow> string \<Rightarrow> string option" where
  "raises loads s = (case loads s of Parsed v \<Rightarrow> None | DecodeError \<Rightarrow> None | Raised m \<Rightarrow> Some m)"

definition entry_complete :: "(string \<Rightarrow> loads_result) \<Rightarrow> acc_entry \<Rightarrow> bool" where
  "entry_complete loads e =
     (acc_arguments e \<noteq> [] \<and> acc_name e \<noteq> [] \<and> parses loads (acc_arguments e))"

definition entry_raises :: "(string \<Rightarrow> loads_result) \<Rightarrow> acc_entry \<Rightarrow> string option" where
  "entry_raises loads e =
     (if acc_arguments e \<noteq> [] \<and> acc_name e \<noteq> [] then raises loads (acc_arguments e) else None)"

definition delta_id :: "delta_tool_call \<Rightarrow> string" where
  "delta_id tc = (case dtc_id tc of None \<Rightarrow> [] | Some i \<Rightarrow> i)"

definition delta_name :: "delta_tool_call \<Rightarrow> string" where
  "delta_name tc =
     (case dtc_function tc of
        None \<Rightarrow> []
      | Some f \<Rightarrow> (case df_name f of None \<Rightarrow> [] | Some n \<Rightarrow> n))"

definition delta_arguments :: "delta_tool_call \<Rightarrow> string" where
  "delta_arguments tc =
     (case dtc_function tc of
        None \<Rightarrow> []
      | Some f \<Rightarrow> (case df_arguments f of None \<Rightarrow> [] | Some a \<Rightarrow> a))"

definition tool_call_fragment :: "int option \<Rightarrow> string option \<Rightarrow> string option \<Rightarrow> string option \<Rightarrow> chunk" where
  "tool_call_fragment index ident name arguments =
     \<lparr> chunk_choices =
         [\<lparr> sc_delta =
              Some \<lparr> delta_content = None,
                     delta_tool_calls =
                       Some [\<lparr> dtc_index = index, dtc_id = ident,
                                dtc_function = Some \<lparr> df_name = name, df_arguments = arguments \<rparr> \<rparr>] \<rparr>,
            sc_finish_reason = None \<rparr>] \<rparr>"

text \<open>
  The slot of a delta is the backend's index (0 when absent), and the key of a slot is
  \<open>tool_\<close> followed by the index.  The deltas of a chunk are those that the loop of
  line 292 visits; the deltas of a slot in a sequence of chunks are those of its index,
  in the order of arrival.
\<close>

definition slot_index :: "delta_tool_call \<Rightarrow> int" where
  "slot_index tc = (case dtc_index tc of Some i \<Rightarrow> i | None \<Rightarrow> 0)"

definition slot_key :: "int \<Rightarrow> string" where
  "slot_key i = ''tool_'' @ show_int i"

definition chunk_deltas :: "chunk \<Rightarrow> delta_tool_call list" where
  "chunk_deltas chunk =
     (case chunk_choices chunk of
        [] \<Rightarrow> []
      | choice # others \<Rightarrow>
          (case sc_delta choice of
             None \<Rightarrow> []
           | Some delta \<Rightarrow> (case delta_tool_calls delta of None \<Rightarrow> [] | Some tcs \<Rightarrow> tcs)))"

definition slot_deltas :: "int \<Rightarrow> chunk list \<Rightarrow> delta_tool_call list" where
  "slot_deltas i chunks = filter (\<lambda>tc. slot_index tc = i) (concat (map chunk_deltas chunks))"

text \<open>
  What the specification says of one slot when one delta arrives: the entry is created
  on first sight; the identifier and the function name are set by their first non-empty
  occurrence only; the argument text is appended to the buffer; then, if the buffer
  parses and a function name is known, the entry is removed, and otherwise it stays.
\<close>

definition slot_step ::
  "(string \<Rightarrow> loads_result) \<Rightarrow> acc_entry option \<Rightarrow> delta_tool_call \<Rightarrow> acc_entry option" where
  "slot_step loads entry d =
     (let old = (case entry of
                   None \<Rightarrow> \<lparr> acc_id = [], acc_name = [], acc_arguments = [] \<rparr>
                 | Some e \<Rightarrow> e);
          new = \<lparr> acc_id = (if acc_id old = [] then delta_id d else acc_id old),
                  acc_name = (if acc_name old = [] then delta_name d else acc_name old),
                  acc_arguments = acc_arguments old @ delta_arguments d \<rparr>
      in if parses loads (acc_arguments new) \<and> acc_name new \<noteq> [] then None else Some new)"

text \<open>
  The entry that a sequence of deltas adds up to: the first non-empty identifier, the
  first non-empty name and the concatenation of the arguments.  A sequence never
  completes when none of its non-empty prefixes adds up to an entry that the
  specification removes.
\<close>

definition first_nonempty :: "string list \<Rightarrow> string" where
  "first_nonempty xs = (case filter (\<lambda>x. x \<noteq> []) xs of [] \<Rightarrow> [] | x # rest \<Rightarrow> x)"

definition merged :: "delta_tool_call list \<Rightarrow> acc_entry" where
  "merged ds =
     \<lparr> acc_id = first_nonempty (map delta_id ds),
       acc_name = first_nonempty (map delta_name ds),
       acc_arguments = concat (map delta_arguments ds) \<rparr>"

definition completes :: "(string \<Rightarrow> loads_result) \<Rightarrow> acc_entry \<Rightarrow> bool" where
  "completes loads e = (parses loads (acc_arguments e) \<and> acc_name e \<noteq> [])"

definition never_complete :: "(string \<Rightarrow> loads_result) \<Rightarrow> delta_tool_call list \<Rightarrow> bool" where
  "never_complete loads ds =
     list_all (\<lambda>k. \<not> completes loads (merged (take k ds))) [1..<Suc (length ds)]"

text \<open>
  A decoder every call of which raises, with the message \<open>m\<close>.
\<close>

definition loads_raising :: "string \<Rightarrow> string \<Rightarrow> loads_result" where
  "loads_raising m s = Raised m"

text \<open>
  For the response converter: a string that is one fenced block labelled \<open>json\<close>, that
  is, the opening fence, white space, a newline, a body, a newline and the closing
  fence; and the text of a list of parts.
\<close>

definition is_json_fence :: "string \<Rightarrow> bool" where
  "is_json_fence t =
     (\<exists>ws body. list_all is_space ws
        \<and> t = ''```json'' @ ws @ [CHR 0x0A] @ body @ [CHR 0x0A] @ ''```'')"

definition parts_text :: "gpart list \<Rightarrow> string" where
  "parts_text ps =
     concat (map (\<lambda>p. case p of TextPart t \<Rightarrow> t | FunctionCallPart n a \<Rightarrow> []) ps)"

section \<open>Properties of the request converter\<close>

lemmas dumps_simps = dumps_string_def escape_char_def show_int_def hex_digit_def

lemmas convert_simps = convert_contents_to_messages_def convert_content_def strip_def is_space_def
  is_last_message_def has_response_def part_responds_def make_tool_call_def tool_message_def

lemma user_parts_eq:
  "user_parts dumps ps (t, ms) =
     (t @ concat (map part_text ps), ms @ map (tool_message dumps) (function_responses ps))"
  by (induction ps arbitrary: t ms)
     (auto simp: part_text_def function_responses_def map_filter_simps
           split: part.splits option.splits)

lemma has_response_last:
  "is_last_message contents i \<Longrightarrow> \<not> has_response contents i fc"
  by (simp add: is_last_message_def has_response_def)

lemma model_parts_last:
  "is_last_message contents i \<Longrightarrow>
     model_parts dumps contents i ps (t, tcs) = (t @ concat (map part_text ps), tcs)"
  by (induction ps arbitrary: t tcs)
     (auto simp: part_text_def has_response_last split: part.splits option.splits)

lemma model_parts_not_last:
  "\<not> is_last_message contents i \<Longrightarrow>
     model_parts dumps contents i ps (t, tcs) =
       (t @ concat (map part_text ps), tcs @ map (make_tool_call dumps) (function_calls ps))"
  by (induction ps arbitrary: t tcs)
     (auto simp: part_text_def function_calls_def map_filter_simps
           split: part.splits option.splits)

lemma convert_loop_eq:
  "convert_loop dumps contents i cs ms =
     ms @ concat (map (\<lambda>(j, c). convert_content dumps contents j c) (enumerate i cs))"
  by (induction cs arbitrary: i ms) auto

lemma convert_contents_to_messages_eq:
  "convert_contents_to_messages dumps contents =
     concat (map (\<lambda>(j, c). convert_content dumps contents j c) (enumerate 0 contents))"
  by (simp add: convert_contents_to_messages_def convert_loop_eq)

lemma is_last_append [simp]: "is_last_message (pre @ [c]) (length pre)"
  by (simp add: is_last_message_def)

lemma not_last_append [simp]: "\<not> is_last_message (pre @ c # n # post) (length pre)"
  by (simp add: is_last_message_def)


lemma tool_calls_of_simps [simp]:
  "tool_calls_of (UserMessage c) = []"
  "tool_calls_of (ToolMessage i c) = []"
  "tool_calls_of (AssistantMessage t None) = []"
  "tool_calls_of (AssistantMessage t (Some tcs)) = tcs"
  by (simp_all add: tool_calls_of_def)

lemma tool_calls_of_tool_message [simp]: "tool_calls_of (tool_message dumps r) = []"
  by (simp add: tool_message_def)

lemma is_tool_message_simps [simp]:
  "\<not> is_tool_message (UserMessage c)"
  "is_tool_message (ToolMessage i c)"
  "\<not> is_tool_message (AssistantMessage t tcs)"
  "is_tool_message (tool_message dumps r)"
  by (simp_all add: is_tool_message_def tool_message_def)

lemma convert_content_user:
  "role_of c = ''user'' \<Longrightarrow>
     convert_content dumps contents i c =
       (if strip (concat (map part_text (content_parts c))) \<noteq> []
        then [UserMessage (strip (concat (map part_text (content_parts c))))] else [])
       @ map (tool_message dumps) (function_responses (content_parts c))"
  by (simp add: convert_content_def role_of_def user_parts_eq)

lemma convert_content_model_last:
  "role_of c = ''model'' \<Longrightarrow> is_last_message contents i \<Longrightarrow>
     convert_content dumps contents i c =
       (if strip (concat (map part_text (content_parts c))) \<noteq> []
        then [AssistantMessage (Some (strip (concat (map part_text (content_parts c))))) None]
        else [])"
  by (simp add: convert_content_def role_of_def model_parts_last)

lemma convert_content_model_not_last:
  "role_of c = ''model'' \<Longrightarrow> \<not> is_last_message contents i \<Longrightarrow>
     convert_content dumps contents i c =
       (if strip (concat (map part_text (content_parts c))) \<noteq> []
           \<or> function_calls (content_parts c) \<noteq> []
        then [AssistantMessage
                (if strip (concat (map part_text (content_parts c))) \<noteq> []
                 then Some (strip (concat (map part_text (content_parts c)))) else None)
                (if function_calls (content_parts c) \<noteq> []
                 then Some (map (make_tool_call dumps) (function_calls (content_parts c)))
                 else None)]
        else [])"
  by (simp add: convert_content_def role_of_def model_parts_not_last)

lemma convert_content_other:
  "role_of c \<noteq> ''user'' \<Longrightarrow> role_of c \<noteq> ''model'' \<Longrightarrow> convert_content dumps contents i c = []"
  by (simp add: convert_content_def role_of_def)

lemma concat_tool_calls_tool_messages [simp]:
  "concat (map (tool_calls_of \<circ> tool_message dumps) rs) = []"
  by (induction rs) simp_all

lemma final_turn: "concat (map tool_calls_of (convert_content dumps (pre @ [c]) (length pre) c)) = []"
proof -
  consider "role_of c = ''user''" | "role_of c = ''model''"
    | "role_of c \<noteq> ''user''" "role_of c \<noteq> ''model''" by blast
  then show ?thesis
  proof cases
    case 1 then show ?thesis by (simp add: convert_content_user)
  next
    case 2 then show ?thesis by (simp add: convert_content_model_last)
  next
    case 3 then show ?thesis by (simp add: convert_content_other)
  qed
qed

lemma inner_turn: "concat (map tool_calls_of (convert_content dumps (pre @ c # n # post) (length pre) c)) =
    (if role_of c = ''model'' then map (make_tool_call dumps) (function_calls (content_parts c)) else [])"
proof -
  consider "role_of c = ''user''" | "role_of c = ''model''"
    | "role_of c \<noteq> ''user''" "role_of c \<noteq> ''model''" by blast
  then show ?thesis
  proof cases
    case 1 then show ?thesis by (simp add: convert_content_user)
  next
    case 2 then show ?thesis by (simp add: convert_content_model_not_last)
  next
    case 3 then show ?thesis by (simp add: convert_content_other)
  qed
qed

lemma filter_tool_messages [simp]:
  "filter is_tool_message (map (tool_message dumps) rs) = map (tool_message dumps) rs"
  by (induction rs) simp_all

lemma tool_messages:
  "filter is_tool_message (convert_content dumps contents i c) =
     (if role_of c = ''user'' then map (tool_message dumps) (function_responses (content_parts c)) else [])"
proof -
  consider "role_of c = ''user''" | "role_of c = ''model''"
    | "role_of c \<noteq> ''user''" "role_of c \<noteq> ''model''" by blast
  then show ?thesis
  proof cases
    case 1 then show ?thesis by (simp add: convert_content_user)
  next
    case 2 then show ?thesis
      by (cases "is_last_message contents i")
         (simp_all add: convert_content_model_last convert_content_model_not_last)
  next
    case 3 then show ?thesis by (simp add: convert_content_other)
  qed
qed

lemma tool_messages_all:
  "filter is_tool_message (convert_contents_to_messages dumps contents) =
     concat (map (\<lambda>c. if role_of c = ''user''
                       then map (tool_message dumps) (function_responses (content_parts c))
                       else []) contents)"
proof -
  have "filter is_tool_message (concat (map (\<lambda>(j, c). convert_content dumps contents j c) (enumerate k cs)))
      = concat (map (\<lambda>c. if role_of c = ''user''
                       then map (tool_message dumps) (function_responses (content_parts c))
                       else []) cs)" for k cs
    by (induction cs arbitrary: k) (simp_all add: tool_messages)
  then show ?thesis by (simp add: convert_contents_to_messages_eq)
qed

text \<open>
  C1 (as stated).  A model turn with a \<open>functionCall\<close> \<open>f\<close>, followed by a user turn
  whose only text is blank: the call is not in the final input turn, so it is kept; the
  user turn gives no message.  The converted request is one assistant message, its final
  assistant turn, and it carries the tool call although no part of the request is a
  \<open>functionResponse\<close>.
\<close>

theorem dangling_call_in_final_assistant_turn:
  "convert_contents_to_messages (json_dumps True)
     [\<lparr>content_role = Some ''model'',
       content_parts = [PartDict \<lparr>p_text = None,
                                  p_functionCall = Some \<lparr>fc_name = Some ''f'', fc_args = None\<rparr>,
                                  p_functionResponse = None\<rparr>]\<rparr>,
      \<lparr>content_role = Some ''user'', content_parts = [PartStr '' '']\<rparr>] =
     [AssistantMessage None
        (Some [\<lparr>tc_id = ''f:0'', tc_type = ''function'', tc_function_name = ''f'',
                tc_function_arguments = ''{}''\<rparr>])]
   \<and> \<not> list_ex (\<lambda>c. list_ex (part_responds \<lparr>fc_name = Some ''f'', fc_args = None\<rparr>)
                         (content_parts c))
         [\<lparr>content_role = Some ''model'',
           content_parts = [PartDict \<lparr>p_text = None,
                                      p_functionCall = Some \<lparr>fc_name = Some ''f'', fc_args = None\<rparr>,
                                      p_functionResponse = None\<rparr>]\<rparr>,
          \<lparr>content_role = Some ''user'', content_parts = [PartStr '' '']\<rparr>]"
  by (simp add: convert_simps dumps_simps)

text \<open>
  C1 (amended).  The messages appended for the final input turn carry no tool call at
  all, whether or not a \<open>functionResponse\<close> matches: every \<open>functionCall\<close> of the final
  input turn is dropped (the search for a response only looks at later turns, and there
  is none).  The \<open>functionCall\<close> parts of a model turn that is not the final input turn
  all become tool calls, in order.  The converted request is the concatenation of what
  each turn appends.
\<close>

theorem final_turn_calls_dropped:
  "concat (map tool_calls_of (convert_content dumps (pre @ [c]) (length pre) c)) = []
   \<and> concat (map tool_calls_of (convert_content dumps (pre @ c # n # post) (length pre) c)) =
       (if role_of c = ''model''
        then map (make_tool_call dumps) (function_calls (content_parts c)) else [])
   \<and> convert_contents_to_messages dumps contents =
       concat (map (\<lambda>(i, c). convert_content dumps contents i c) (enumerate 0 contents))"
  by (simp only: final_turn inner_turn convert_contents_to_messages_eq simp_thms)

theorem final_turn_calls_dropped_witness:
  "convert_contents_to_messages (json_dumps True)
     [\<lparr>content_role = Some ''model'',
       content_parts = [PartDict \<lparr>p_text = None,
                                  p_functionCall = Some \<lparr>fc_name = Some ''f'', fc_args = None\<rparr>,
                                  p_functionResponse = None\<rparr>]\<rparr>,
      \<lparr>content_role = Some ''model'',
       content_parts = [PartStr ''done'',
                        PartDict \<lparr>p_text = None,
                                  p_functionCall = Some \<lparr>fc_name = Some ''g'', fc_args = None\<rparr>,
                                  p_functionResponse = None\<rparr>]\<rparr>] =
     [AssistantMessage None
        (Some [\<lparr>tc_id = ''f:0'', tc_type = ''function'', tc_function_name = ''f'',
                tc_function_arguments = ''{}''\<rparr>]),
      AssistantMessage (Some ''done'') None]"
  using final_turn_calls_dropped
    [of "json_dumps True"
        "[\<lparr>content_role = Some ''model'',
           content_parts = [PartDict \<lparr>p_text = None,
                                  p_functionCall = Some \<lparr>fc_name = Some ''f'', fc_args = None\<rparr>,
                                  p_functionResponse = None\<rparr>]\<rparr>]"
        "\<lparr>content_role = Some ''model'',
       content_parts = [PartStr ''done'',
                        PartDict \<lparr>p_text = None,
                                  p_functionCall = Some \<lparr>fc_name = Some ''g'', fc_args = None\<rparr>,
                                  p_functionResponse = None\<rparr>]\<rparr>"]
  by (simp add: convert_simps dumps_simps)

text \<open>
  C7 (as stated).  A turn of role \<open>assistant\<close> is not treated as a turn of role
  \<open>model\<close>: on the same parts, the first gives no message and the second an assistant
  message.
\<close>

theorem assistant_role_not_converted:
  "convert_contents_to_messages (json_dumps True)
     [\<lparr>content_role = Some ''assistant'', content_parts = [PartStr ''hi'']\<rparr>] = []
   \<and> convert_contents_to_messages (json_dumps True)
     [\<lparr>content_role = Some ''model'', content_parts = [PartStr ''hi'']\<rparr>] =
       [AssistantMessage (Some ''hi'') None]"
  by (simp add: convert_contents_to_messages_def convert_content_def strip_def is_space_def)

text \<open>
  C7 (amended).  The iteration for a turn of role \<open>assistant\<close> appends nothing; the one
  for a turn of role \<open>model\<close> appends one assistant message with the stripped
  concatenation of its texts and the tool calls of its \<open>functionCall\<close> parts (none when
  the turn is the final one), or nothing when both are empty; an empty text is absent.
\<close>

theorem only_model_role_gives_assistant_turn:
  "convert_content dumps contents i (c\<lparr>content_role := Some ''assistant''\<rparr>) = []
   \<and> convert_content dumps contents i (c\<lparr>content_role := Some ''model''\<rparr>) =
       (let text = strip (concat (map part_text (content_parts c)));
            tool_calls = (if is_last_message contents i then []
                          else map (make_tool_call dumps) (function_calls (content_parts c)))
        in if text \<noteq> [] \<or> tool_calls \<noteq> []
           then [AssistantMessage (if text \<noteq> [] then Some text else None)
                                  (if tool_calls \<noteq> [] then Some tool_calls else None)]
           else [])"
  by (cases "is_last_message contents i")
     (simp_all add: convert_content_other convert_content_model_last
        convert_content_model_not_last role_of_def Let_def)

theorem only_model_role_gives_assistant_turn_witness:
  "convert_content (json_dumps True) [] 0
      \<lparr>content_role = Some ''assistant'', content_parts = [PartStr ''hi'']\<rparr> = []
   \<and> convert_content (json_dumps True) [] 0
      \<lparr>content_role = Some ''model'', content_parts = [PartStr ''hi'']\<rparr> =
        [AssistantMessage (Some ''hi'') None]"
  using only_model_role_gives_assistant_turn
    [of "json_dumps True" "[]" 0 "\<lparr>content_role = None, content_parts = [PartStr ''hi'']\<rparr>"]
  by (simp add: convert_simps part_text_def function_calls_def map_filter_simps)

text \<open>
  C8.  An absent and an empty configuration give the empty parameter set.  Otherwise
  \<open>temperature\<close>, \<open>max_tokens\<close>, \<open>top_p\<close> and \<open>stop\<close> are in the result exactly when
  \<open>temperature\<close>, \<open>maxOutputTokens\<close>, \<open>topP\<close> and \<open>stopSequences\<close> are in the
  configuration, with the same values, and no other key is; so \<open>topK\<close> is dropped, and a
  configuration with \<open>topP\<close> alone gives \<open>top_p\<close> alone.
\<close>

theorem config_presence_preserving:
  "convert_config_to_openai_params None = Map.empty
   \<and> convert_config_to_openai_params (Some Map.empty) = Map.empty
   \<and> convert_config_to_openai_params (Some config) =
       (\<lambda>k. if k = ''temperature'' then config ''temperature''
            else if k = ''max_tokens'' then config ''maxOutputTokens''
            else if k = ''top_p'' then config ''topP''
            else if k = ''stop'' then config ''stopSequences''
            else None)
   \<and> convert_config_to_openai_params (Some [''topP'' \<mapsto> v]) = [''top_p'' \<mapsto> v]
   \<and> convert_config_to_openai_params (Some config) ''topK'' = None"
proof -
  have gen: "convert_config_to_openai_params (Some c) =
       (\<lambda>k. if k = ''temperature'' then c ''temperature''
            else if k = ''max_tokens'' then c ''maxOutputTokens''
            else if k = ''top_p'' then c ''topP''
            else if k = ''stop'' then c ''stopSequences''
            else None)" for c
  proof (cases "c = Map.empty")
    case True
    then show ?thesis by (auto simp: convert_config_to_openai_params_def)
  next
    case False
    then show ?thesis
      by (auto simp: convert_config_to_openai_params_def Let_def fun_eq_iff split: option.splits)
  qed
  have only: "convert_config_to_openai_params (Some [''topP'' \<mapsto> v]) = [''top_p'' \<mapsto> v]"
    by (auto simp: gen fun_eq_iff)
  have topK: "convert_config_to_openai_params (Some config) ''topK'' = None"
    by (simp add: gen)
  show ?thesis
    using gen [of config] only topK by (simp add: convert_config_to_openai_params_def)
qed

theorem config_presence_preserving_witness:
  "convert_config_to_openai_params (Some [''topP'' \<mapsto> JFloat ''0.9'', ''topK'' \<mapsto> JInt 40]) =
     [''top_p'' \<mapsto> JFloat ''0.9'']"
  using config_presence_preserving
    [where config = "[''topP'' \<mapsto> JFloat ''0.9'', ''topK'' \<mapsto> JInt 40]" and v = "JFloat ''0.9''"]
  by (auto simp: fun_eq_iff)

text \<open>
  C10.  The tool messages of the converted request are, in order, those of the
  \<open>functionResponse\<close> parts of the user turns: the identifier is the response's name
  (or \<open>unknown\<close>) followed by \<open>:0\<close>, which is also how the identifier of a tool call is
  made, and the content is the serialisation of the response (or of the empty object).
\<close>

theorem tool_result_turns:
  "filter is_tool_message (convert_contents_to_messages dumps contents) =
     concat (map (\<lambda>c. if role_of c = ''user''
                       then map (\<lambda>r. ToolMessage
                                        ((case fr_name r of None \<Rightarrow> ''unknown'' | Some n \<Rightarrow> n) @ '':0'')
                                        (dumps (case fr_response r of None \<Rightarrow> JObject [] | Some v \<Rightarrow> v)))
                              (function_responses (content_parts c))
                       else []) contents)
   \<and> tc_id (make_tool_call dumps fc) = (case fc_name fc of None \<Rightarrow> ''unknown'' | Some n \<Rightarrow> n) @ '':0''"
proof -
  have tm: "tool_message dumps =
      (\<lambda>r. ToolMessage ((case fr_name r of None \<Rightarrow> ''unknown'' | Some n \<Rightarrow> n) @ '':0'')
                       (dumps (case fr_response r of None \<Rightarrow> JObject [] | Some v \<Rightarrow> v)))"
    by (simp add: fun_eq_iff tool_message_def)
  show ?thesis
    by (simp add: tool_messages_all tm make_tool_call_def cong: if_cong)
qed

theorem tool_result_turns_witness:
  "filter is_tool_message
     (convert_contents_to_messages (json_dumps True)
        [\<lparr>content_role = None,
          content_parts =
            [PartStr ''result: '',
             PartDict \<lparr>p_text = None, p_functionCall = None,
                       p_functionResponse =
                         Some \<lparr>fr_name = Some ''f'',
                               fr_response = Some (JObject [(''ok'', JBool True)])\<rparr>\<rparr>,
             PartDict \<lparr>p_text = None, p_functionCall = None,
                       p_functionResponse = Some \<lparr>fr_name = None, fr_response = None\<rparr>\<rparr>]\<rparr>]) =
     [ToolMessage ''f:0'' ''{\"ok\": true}'', ToolMessage ''unknown:0'' ''{}'']"
  using tool_result_turns
    [of "json_dumps True"
        "[\<lparr>content_role = None,
          content_parts =
            [PartStr ''result: '',
             PartDict \<lparr>p_text = None, p_functionCall = None,
                       p_functionResponse =
                         Some \<lparr>fr_name = Some ''f'',
                               fr_response = Some (JObject [(''ok'', JBool True)])\<rparr>\<rparr>,
             PartDict \<lparr>p_text = None, p_functionCall = None,
                       p_functionResponse = Some \<lparr>fr_name = None, fr_response = None\<rparr>\<rparr>]\<rparr>]"]
  by (simp add: role_of_def function_responses_def map_filter_simps dumps_simps)

section \<open>Properties of the streaming accumulator\<close>

lemma show_nat_small [simp]: "n < 10 \<Longrightarrow> show_nat n = [''0123456789'' ! n]"
  by (subst show_nat.simps) simp

lemma digit_char_value: "d < 10 \<Longrightarrow> (of_char (''0123456789'' ! d) :: nat) = 48 + d"
proof -
  assume "d < 10"
  then consider "d = 0" | "d = 1" | "d = 2" | "d = 3" | "d = 4" | "d = 5" | "d = 6" | "d = 7"
    | "d = 8" | "d = 9" by atomize_elim arith
  then show ?thesis by cases simp_all
qed

lemma digits_value_snoc: "digits_value (ds @ [c]) = 10 * digits_value ds + (of_char c - 48)"
  by (simp add: digits_value_def)

lemma digits_value_show_nat: "digits_value (show_nat n) = n"
proof (induction n rule: show_nat.induct)
  case (1 n)
  show ?case
  proof (cases "n < 10")
    case True
    then show ?thesis by (simp add: digits_value_def digit_char_value)
  next
    case False
    then have "show_nat n = show_nat (n div 10) @ [''0123456789'' ! (n mod 10)]"
      by (subst show_nat.simps) simp
    with False "1.IH" show ?thesis
      by (simp add: digits_value_snoc digit_char_value)
  qed
qed

lemma show_nat_not_minus: "show_nat n \<noteq> [] \<and> hd (show_nat n) \<noteq> CHR ''-''"
proof (induction n rule: show_nat.induct)
  case (1 n)
  show ?case
  proof (cases "n < 10")
    case True
    then have "(of_char (hd (show_nat n)) :: nat) = 48 + n" by (simp add: digit_char_value)
    then have "hd (show_nat n) \<noteq> CHR ''-''" by auto
    with True show ?thesis by simp
  next
    case False
    then have "show_nat n = show_nat (n div 10) @ [''0123456789'' ! (n mod 10)]"
      by (subst show_nat.simps) simp
    with False "1.IH" show ?thesis by simp
  qed
qed

lemma int_of_lexeme_show_int: "int_of_lexeme (show_int i) = i"
proof (cases "i < 0")
  case True
  then show ?thesis by (simp add: show_int_def int_of_lexeme_def digits_value_show_nat)
next
  case False
  obtain c r where cr: "show_nat (nat i) = c # r" "c \<noteq> CHR ''-''"
    using show_nat_not_minus [of "nat i"] by (cases "show_nat (nat i)") auto
  with False show ?thesis
    using digits_value_show_nat [of "nat i"]
    by (simp add: show_int_def int_of_lexeme_def)
qed

lemma show_int_inject: "show_int i = show_int j \<Longrightarrow> i = j"
  by (metis int_of_lexeme_show_int)

lemma truthy_simps [simp]: "truthy None = False" "truthy (Some x) = (x \<noteq> [])"
  by (simp_all add: truthy_def)

lemma accumulate_entry_id:
  "acc_id (accumulate_entry old tc) = (if acc_id old \<noteq> [] then acc_id old else delta_id tc)"
  by (auto simp: accumulate_entry_def delta_id_def Let_def split: option.splits)

lemma accumulate_entry_name:
  "acc_name (accumulate_entry old tc) = (if acc_name old \<noteq> [] then acc_name old else delta_name tc)"
  by (auto simp: accumulate_entry_def delta_name_def Let_def split: option.splits)

lemma accumulate_entry_arguments:
  "acc_arguments (accumulate_entry old tc) = acc_arguments old @ delta_arguments tc"
  by (auto simp: accumulate_entry_def delta_arguments_def Let_def split: option.splits)

lemma accumulate_entry_eq:
  "accumulate_entry old tc =
     \<lparr> acc_id = (if acc_id old = [] then delta_id tc else acc_id old),
       acc_name = (if acc_name old = [] then delta_name tc else acc_name old),
       acc_arguments = acc_arguments old @ delta_arguments tc \<rparr>"
  by (rule acc_entry.equality)
     (simp_all add: accumulate_entry_id accumulate_entry_name accumulate_entry_arguments)

lemma accumulate_tool_call_eq:
  "accumulate_tool_call loads (acc, parts) tc =
     (let key = tool_call_key tc; new = accumulate_entry (entry_at acc key) tc
      in if acc_arguments new \<noteq> [] \<and> acc_name new \<noteq> [] then
           (case loads (acc_arguments new) of
              Parsed v \<Rightarrow> Inr (AList.delete key acc, parts @ [FunctionCallPart (acc_name new) v])
            | DecodeError \<Rightarrow> Inr (AList.update key new acc, parts)
            | Raised m \<Rightarrow> Inl m)
         else Inr (AList.update key new acc, parts))"
  by (simp add: accumulate_tool_call_def entry_at_def Let_def delete_update_same
        split: loads_result.splits)

lemma accumulate_tool_call_cases:
  "accumulate_tool_call loads (acc, parts) tc =
     (let key = tool_call_key tc; new = accumulate_entry (entry_at acc key) tc
      in case entry_raises loads new of
           Some m \<Rightarrow> Inl m
         | None \<Rightarrow>
             if entry_complete loads new
             then Inr (AList.delete key acc,
                       parts @ [FunctionCallPart (acc_name new) (parsed loads (acc_arguments new))])
             else Inr (AList.update key new acc, parts))"
  by (simp add: accumulate_tool_call_eq Let_def entry_raises_def entry_complete_def parses_def
        parsed_def raises_def split: loads_result.splits)

lemma tool_call_key_slot: "tool_call_key tc = slot_key (slot_index tc)"
  by (simp add: tool_call_key_def slot_key_def slot_index_def)

lemma slot_key_inject [simp]: "slot_key i = slot_key j \<longleftrightarrow> i = j"
  by (auto simp: slot_key_def dest: show_int_inject)

lemma slot_step_eq:
  "slot_step loads entry d =
     (let new = accumulate_entry
                  (case entry of
                     None \<Rightarrow> \<lparr> acc_id = [], acc_name = [], acc_arguments = [] \<rparr>
                   | Some e \<Rightarrow> e) d
      in if parses loads (acc_arguments new) \<and> acc_name new \<noteq> [] then None else Some new)"
  by (simp add: slot_step_def Let_def accumulate_entry_eq)

lemma accumulate_tool_call_map_of:
  assumes "accumulate_tool_call loads (acc, parts) tc = Inr (acc', parts')"
    and "\<not> parses loads []"
  shows "map_of acc' =
           (map_of acc)(tool_call_key tc := slot_step loads (map_of acc (tool_call_key tc)) tc)"
proof -
  let ?new = "accumulate_entry (entry_at acc (tool_call_key tc)) tc"
  have step: "slot_step loads (map_of acc (tool_call_key tc)) tc =
      (if parses loads (acc_arguments ?new) \<and> acc_name ?new \<noteq> [] then None else Some ?new)"
    by (simp add: slot_step_eq entry_at_def Let_def)
  show ?thesis
  proof (cases "acc_arguments ?new \<noteq> [] \<and> acc_name ?new \<noteq> []")
    case False
    with assms(2) have "\<not> (parses loads (acc_arguments ?new) \<and> acc_name ?new \<noteq> [])"
      by auto
    with False assms(1) step show ?thesis
      by (auto simp: accumulate_tool_call_eq Let_def update_conv')
  next
    case True
    with assms(1) step show ?thesis
      by (auto simp: accumulate_tool_call_eq Let_def update_conv' delete_conv' parses_def
            split: loads_result.splits)
  qed
qed

lemma accumulate_tool_call_slot:
  assumes "accumulate_tool_call loads (acc, parts) tc = Inr (acc', parts')"
    and "\<not> parses loads []"
  shows "map_of acc' (slot_key i) =
           (if slot_index tc = i then slot_step loads (map_of acc (slot_key i)) tc
            else map_of acc (slot_key i))"
  using accumulate_tool_call_map_of [OF assms]
  by (auto simp: tool_call_key_slot)

lemma accumulate_tool_calls_slot:
  assumes "accumulate_tool_calls loads (acc, parts) tcs = Inr (acc', parts')"
    and "\<not> parses loads []"
  shows "map_of acc' (slot_key i) =
           foldl (slot_step loads) (map_of acc (slot_key i)) (filter (\<lambda>tc. slot_index tc = i) tcs)"
  using assms(1)
proof (induction tcs arbitrary: acc parts)
  case Nil
  then show ?case by simp
next
  case (Cons tc tcs)
  from Cons.prems obtain acc1 parts1 where
    one: "accumulate_tool_call loads (acc, parts) tc = Inr (acc1, parts1)"
    and rest: "accumulate_tool_calls loads (acc1, parts1) tcs = Inr (acc', parts')"
    by (auto split: sum.splits)
  from Cons.IH [OF rest] accumulate_tool_call_slot [OF one assms(2), of i]
  show ?case by simp
qed

lemma convert_streaming_chunk_slot:
  assumes "convert_streaming_chunk_to_gemini loads chunk acc = Inr (out, acc')"
    and "\<not> parses loads []"
  shows "map_of acc' (slot_key i) =
           foldl (slot_step loads) (map_of acc (slot_key i))
             (filter (\<lambda>tc. slot_index tc = i) (chunk_deltas chunk))"
proof (cases "chunk_choices chunk")
  case Nil
  with assms(1) show ?thesis
    by (simp add: convert_streaming_chunk_to_gemini_def chunk_deltas_def)
next
  case (Cons choice others)
  show ?thesis
  proof (cases "sc_delta choice")
    case None
    with Cons assms(1) show ?thesis
      by (simp add: convert_streaming_chunk_to_gemini_def chunk_deltas_def)
  next
    case (Some delta)
    show ?thesis
    proof (cases "delta_tool_calls delta")
      case None
      with Cons Some assms(1) show ?thesis
        by (auto simp: convert_streaming_chunk_to_gemini_def chunk_deltas_def Let_def
              split: if_splits)
    next
      case tcs: (Some tcs)
      with Cons Some assms(1) obtain p0 parts' where
        "accumulate_tool_calls loads (acc, p0) tcs = Inr (acc', parts')"
        by (auto simp: convert_streaming_chunk_to_gemini_def Let_def
              split: sum.splits if_splits)
      from accumulate_tool_calls_slot [OF this assms(2), of i] Cons Some tcs
      show ?thesis by (simp add: chunk_deltas_def)
    qed
  qed
qed

lemma stream_chunks_slot:
  assumes "stream_chunks loads chunks acc = (yielded, Inr acc')"
    and "\<not> parses loads []"
  shows "map_of acc' (slot_key i) =
           foldl (slot_step loads) (map_of acc (slot_key i)) (slot_deltas i chunks)"
  using assms(1)
proof (induction chunks arbitrary: acc yielded)
  case Nil
  then show ?case by (simp add: slot_deltas_def)
next
  case (Cons c cs)
  from Cons.prems obtain out acc1 ys where
    one: "convert_streaming_chunk_to_gemini loads c acc = Inr (out, acc1)"
    and rest: "stream_chunks loads cs acc1 = (ys, Inr acc')"
    by (auto split: sum.splits prod.splits)
  from Cons.IH [OF rest] convert_streaming_chunk_slot [OF one assms(2), of i]
  show ?case by (simp add: slot_deltas_def)
qed

lemma first_nonempty_simps [simp]:
  "first_nonempty [] = []"
  "first_nonempty (x # xs) = (if x = [] then first_nonempty xs else x)"
  by (simp_all add: first_nonempty_def)

lemma first_nonempty_snoc:
  "first_nonempty (xs @ [x]) = (if first_nonempty xs = [] then x else first_nonempty xs)"
  by (induction xs) simp_all

lemma merged_Nil: "merged [] = \<lparr> acc_id = [], acc_name = [], acc_arguments = [] \<rparr>"
  by (simp add: merged_def)

lemma merged_snoc: "accumulate_entry (merged ds) d = merged (ds @ [d])"
  by (simp add: accumulate_entry_eq merged_def first_nonempty_snoc)

lemma never_complete_snoc:
  "never_complete loads (ds @ [d]) \<longleftrightarrow>
     never_complete loads ds \<and> \<not> completes loads (merged (ds @ [d]))"
proof -
  have "list_all (\<lambda>k. \<not> completes loads (merged (take k (ds @ [d])))) [1..<Suc (length ds)]
      = list_all (\<lambda>k. \<not> completes loads (merged (take k ds))) [1..<Suc (length ds)]"
    by (rule list_all_cong) auto
  then show ?thesis
    by (simp add: never_complete_def)
qed

lemma slot_step_never_complete:
  "never_complete loads ds \<Longrightarrow>
     foldl (slot_step loads) None ds = (if ds = [] then None else Some (merged ds))"
proof (induction ds rule: rev_induct)
  case Nil
  then show ?case by simp
next
  case (snoc d ds)
  from snoc.prems have nc: "never_complete loads ds"
    and last: "\<not> completes loads (merged (ds @ [d]))"
    by (simp_all add: never_complete_snoc)
  have "(case foldl (slot_step loads) None ds of
           None \<Rightarrow> \<lparr> acc_id = [], acc_name = [], acc_arguments = [] \<rparr>
         | Some e \<Rightarrow> e) = merged ds"
    using snoc.IH [OF nc] by (simp add: merged_Nil)
  then have "slot_step loads (foldl (slot_step loads) None ds) d =
      (if completes loads (merged (ds @ [d])) then None else Some (merged (ds @ [d])))"
    by (simp add: slot_step_eq Let_def merged_snoc completes_def)
  with last show ?case by simp
qed

lemma slot_deltas_single: "slot_deltas i [chunk] = filter (\<lambda>tc. slot_index tc = i) (chunk_deltas chunk)"
  by (simp add: slot_deltas_def)

lemmas loads_simps = json_loads_def skip_ws_def json_ws_def strip_prefix_def scan_number_def
  scan_int_part_def scan_frac_def scan_exp_def int_of_lexeme_def digits_value_def is_digit_def
  numeral_eq_Suc

lemma json_loads_partial: "json_loads ''{\"x\":'' = DecodeError"
  by (simp add: loads_simps)

lemma json_loads_whole: "json_loads ''{\"x\":1}'' = Parsed (JObject [(''x'', JInt 1)])"
  by (simp add: loads_simps)

lemma json_loads_empty: "json_loads [] = DecodeError"
  by (simp add: loads_simps)

lemma json_loads_brace: "json_loads ''{'' = DecodeError"
  by (simp add: loads_simps)

lemma not_parses_json_loads_empty: "\<not> parses json_loads []"
  by (simp add: parses_def json_loads_empty)

lemma tool_call_key_0 [simp]:
  "tool_call_key \<lparr> dtc_index = Some 0, dtc_id = i, dtc_function = f \<rparr> = ''tool_0''"
  by (simp add: tool_call_key_def show_int_def)

lemma tool_call_key_1 [simp]:
  "tool_call_key \<lparr> dtc_index = Some 1, dtc_id = i, dtc_function = f \<rparr> = ''tool_1''"
  by (simp add: tool_call_key_def show_int_def)

lemma convert_tool_call_fragment:
  "convert_streaming_chunk_to_gemini loads (tool_call_fragment index ident name arguments) acc =
     (let tc = \<lparr> dtc_index = index, dtc_id = ident,
                  dtc_function = Some \<lparr> df_name = name, df_arguments = arguments \<rparr> \<rparr>;
          key = tool_call_key tc;
          new = accumulate_entry (entry_at acc key) tc
      in case entry_raises loads new of
           Some m \<Rightarrow> Inl m
         | None \<Rightarrow>
             if entry_complete loads new
             then Inr (Some \<lparr> candidates =
                        [\<lparr> out_parts =
                             [FunctionCallPart (acc_name new) (parsed loads (acc_arguments new))],
                           out_role = ''model'', finishReason = None, cand_index = 0,
                           safetyRatings = JArray [] \<rparr>],
                      promptFeedback = None, usageMetadata = None \<rparr>,
                   AList.delete key acc)
             else Inr (None, AList.update key new acc))"
  by (simp add: convert_streaming_chunk_to_gemini_def tool_call_fragment_def
        accumulate_tool_call_cases Let_def map_stream_finish_reason_def split: option.splits)

text \<open>
  C2.  One tool call whose name comes in a first fragment and whose arguments
  \<open>{"x":\<close> and \<open>1}\<close> come in a second and a third: from the empty dict, no call
  raises, the first two calls return nothing, and the third returns one response whose
  only part is the function call with the arguments \<open>{"x": 1}\<close>; the entry is then gone.
\<close>

theorem split_arguments_one_call:
  assumes "name \<noteq> []" and "\<not> truthy arguments1"
  shows
    "(case convert_streaming_chunk_to_gemini json_loads
             (tool_call_fragment index ident (Some name) arguments1) [] of
        Inl m \<Rightarrow> False
      | Inr (out1, acc1) \<Rightarrow>
          (case convert_streaming_chunk_to_gemini json_loads
                  (tool_call_fragment index None None (Some ''{\"x\":'')) acc1 of
             Inl m \<Rightarrow> False
           | Inr (out2, acc2) \<Rightarrow>
               (case convert_streaming_chunk_to_gemini json_loads
                       (tool_call_fragment index None None (Some ''1}'')) acc2 of
                  Inl m \<Rightarrow> False
                | Inr (out3, acc3) \<Rightarrow>
                    out1 = None \<and> out2 = None
                    \<and> out3 = Some \<lparr> candidates =
                                       [\<lparr> out_parts =
                                            [FunctionCallPart name (JObject [(''x'', JInt 1)])],
                                          out_role = ''model'', finishReason = None,
                                          cand_index = 0, safetyRatings = JArray [] \<rparr>],
                                     promptFeedback = None, usageMetadata = None \<rparr>
                    \<and> acc3 = [])))"
  using assms
  by (simp add: convert_tool_call_fragment Let_def entry_at_def entry_complete_def
        entry_raises_def raises_def parses_def parsed_def
        accumulate_entry_def json_loads_partial json_loads_whole tool_call_key_def)

theorem split_arguments_one_call_witness:
  "(case convert_streaming_chunk_to_gemini json_loads
             (tool_call_fragment (Some 0) (Some ''call_1'') (Some ''get_weather'') (Some [])) [] of
        Inl m \<Rightarrow> False
      | Inr (out1, acc1) \<Rightarrow>
          (case convert_streaming_chunk_to_gemini json_loads
                  (tool_call_fragment (Some 0) None None (Some ''{\"x\":'')) acc1 of
             Inl m \<Rightarrow> False
           | Inr (out2, acc2) \<Rightarrow>
               (case convert_streaming_chunk_to_gemini json_loads
                       (tool_call_fragment (Some 0) None None (Some ''1}'')) acc2 of
                  Inl m \<Rightarrow> False
                | Inr (out3, acc3) \<Rightarrow>
                    out1 = None \<and> out2 = None
                    \<and> out3 = Some \<lparr> candidates =
                                       [\<lparr> out_parts =
                                            [FunctionCallPart ''get_weather'' (JObject [(''x'', JInt 1)])],
                                          out_role = ''model'', finishReason = None,
                                          cand_index = 0, safetyRatings = JArray [] \<rparr>],
                                     promptFeedback = None, usageMetadata = None \<rparr>
                    \<and> acc3 = [])))"
  by (rule split_arguments_one_call) simp_all

lemma flush_tool_calls_eq:
  "flush_tool_calls loads entries =
     (concat (map (\<lambda>e. if entry_complete loads e
                       then [final_gemini_chunk (acc_name e) (parsed loads (acc_arguments e))]
                       else [])
                (takeWhile (\<lambda>e. entry_raises loads e = None) entries)),
      (case dropWhile (\<lambda>e. entry_raises loads e = None) entries of
         [] \<Rightarrow> None
       | e # rest \<Rightarrow> entry_raises loads e))"
  by (induction entries)
     (auto simp: entry_complete_def entry_raises_def raises_def parses_def parsed_def
        split: loads_result.splits)

text \<open>
  C3.  The flush visits the entries in the order of the dict, up to the first one on
  which \<open>loads\<close> raises something else than \<open>JSONDecodeError\<close>, if there is one.  It
  yields one chunk with the function call and the finish reason \<open>STOP\<close> for each entry
  whose name and buffer are not empty and whose buffer parses, and nothing for any other
  entry; an entry whose buffer does not parse neither stops the loop nor raises.  When
  the client raises nothing, the frames are those of the converted chunks followed by
  those of the flush, with the frame of the handler last if an exception left the
  conversion or the flush.
\<close>

theorem residual_flush:
  "flush_tool_calls loads entries =
     (concat (map (\<lambda>e. if acc_name e \<noteq> [] \<and> acc_arguments e \<noteq> []
                            \<and> parses loads (acc_arguments e)
                       then [\<lparr> candidates =
                                 [\<lparr> out_parts =
                                      [FunctionCallPart (acc_name e)
                                         (parsed loads (acc_arguments e))],
                                    out_role = ''model'', finishReason = Some ''STOP'',
                                    cand_index = 0, safetyRatings = JArray [] \<rparr>],
                               promptFeedback = None, usageMetadata = None \<rparr>]
                       else [])
                (takeWhile (\<lambda>e. entry_raises loads e = None) entries)),
      (case dropWhile (\<lambda>e. entry_raises loads e = None) entries of
         [] \<Rightarrow> None
       | e # rest \<Rightarrow> entry_raises loads e))
   \<and> (list_all (\<lambda>e. entry_raises loads e = None) entries \<longrightarrow>
        flush_tool_calls loads entries =
          (concat (map (\<lambda>e. if acc_name e \<noteq> [] \<and> acc_arguments e \<noteq> []
                                 \<and> parses loads (acc_arguments e)
                            then [\<lparr> candidates =
                                      [\<lparr> out_parts =
                                           [FunctionCallPart (acc_name e)
                                              (parsed loads (acc_arguments e))],
                                         out_role = ''model'', finishReason = Some ''STOP'',
                                         cand_index = 0, safetyRatings = JArray [] \<rparr>],
                                    promptFeedback = None, usageMetadata = None \<rparr>]
                            else []) entries),
           None))
   \<and> stream_generate_content loads dumps delivered None =
       (case stream_chunks loads delivered [] of
          (yielded, Inl m) \<Rightarrow>
            map (\<lambda>g. sse_frame dumps (response_json g)) yielded
            @ [sse_frame dumps (error_response m)]
        | (yielded, Inr acc) \<Rightarrow>
            map (\<lambda>g. sse_frame dumps (response_json g))
              (yielded @ fst (flush_tool_calls loads (map snd acc)))
            @ (case snd (flush_tool_calls loads (map snd acc)) of
                 None \<Rightarrow> []
               | Some m \<Rightarrow> [sse_frame dumps (error_response m)]))"
proof -
  have a: "flush_tool_calls loads entries =
     (concat (map (\<lambda>e. if acc_name e \<noteq> [] \<and> acc_arguments e \<noteq> []
                            \<and> parses loads (acc_arguments e)
                       then [\<lparr> candidates =
                                 [\<lparr> out_parts =
                                      [FunctionCallPart (acc_name e)
                                         (parsed loads (acc_arguments e))],
                                    out_role = ''model'', finishReason = Some ''STOP'',
                                    cand_index = 0, safetyRatings = JArray [] \<rparr>],
                               promptFeedback = None, usageMetadata = None \<rparr>]
                       else [])
                (takeWhile (\<lambda>e. entry_raises loads e = None) entries)),
      (case dropWhile (\<lambda>e. entry_raises loads e = None) entries of
         [] \<Rightarrow> None
       | e # rest \<Rightarrow> entry_raises loads e))"
    by (simp add: flush_tool_calls_eq entry_complete_def final_gemini_chunk_def conj_ac
          cong: if_cong)
  have c: "stream_generate_content loads dumps delivered None =
       (case stream_chunks loads delivered [] of
          (yielded, Inl m) \<Rightarrow>
            map (\<lambda>g. sse_frame dumps (response_json g)) yielded
            @ [sse_frame dumps (error_response m)]
        | (yielded, Inr acc) \<Rightarrow>
            map (\<lambda>g. sse_frame dumps (response_json g))
              (yielded @ fst (flush_tool_calls loads (map snd acc)))
            @ (case snd (flush_tool_calls loads (map snd acc)) of
                 None \<Rightarrow> []
               | Some m \<Rightarrow> [sse_frame dumps (error_response m)]))"
    by (simp add: stream_generate_content_def stream_body_def
          split: prod.splits sum.splits option.splits)
  have b: "list_all (\<lambda>e. entry_raises loads e = None) entries \<longrightarrow>
        flush_tool_calls loads entries =
          (concat (map (\<lambda>e. if acc_name e \<noteq> [] \<and> acc_arguments e \<noteq> []
                                 \<and> parses loads (acc_arguments e)
                            then [\<lparr> candidates =
                                      [\<lparr> out_parts =
                                           [FunctionCallPart (acc_name e)
                                              (parsed loads (acc_arguments e))],
                                         out_role = ''model'', finishReason = Some ''STOP'',
                                         cand_index = 0, safetyRatings = JArray [] \<rparr>],
                                    promptFeedback = None, usageMetadata = None \<rparr>]
                            else []) entries),
           None)"
  proof (intro impI)
    assume la: "list_all (\<lambda>e. entry_raises loads e = None) entries"
    then have tw: "takeWhile (\<lambda>e. entry_raises loads e = None) entries = entries"
      by (simp add: list_all_iff)
    from la have dw: "dropWhile (\<lambda>e. entry_raises loads e = None) entries = []"
      by (simp add: list_all_iff)
    from a show "flush_tool_calls loads entries =
          (concat (map (\<lambda>e. if acc_name e \<noteq> [] \<and> acc_arguments e \<noteq> []
                                 \<and> parses loads (acc_arguments e)
                            then [\<lparr> candidates =
                                      [\<lparr> out_parts =
                                           [FunctionCallPart (acc_name e)
                                              (parsed loads (acc_arguments e))],
                                         out_role = ''model'', finishReason = Some ''STOP'',
                                         cand_index = 0, safetyRatings = JArray [] \<rparr>],
                                    promptFeedback = None, usageMetadata = None \<rparr>]
                            else []) entries),
           None)"
      unfolding tw dw by simp
  qed
  from a b c show ?thesis by blast
qed

theorem residual_flush_witness:
  "flush_tool_calls json_loads
     [\<lparr>acc_id = ''a'', acc_name = ''f'', acc_arguments = ''{\"x\":1}''\<rparr>,
      \<lparr>acc_id = ''b'', acc_name = ''g'', acc_arguments = ''{\"x\":''\<rparr>,
      \<lparr>acc_id = ''c'', acc_name = [], acc_arguments = ''{\"x\":1}''\<rparr>,
      \<lparr>acc_id = ''d'', acc_name = ''h'', acc_arguments = []\<rparr>] =
     ([\<lparr> candidates =
          [\<lparr> out_parts = [FunctionCallPart ''f'' (JObject [(''x'', JInt 1)])],
             out_role = ''model'', finishReason = Some ''STOP'',
             cand_index = 0, safetyRatings = JArray [] \<rparr>],
        promptFeedback = None, usageMetadata = None \<rparr>], None)"
proof -
  have ok: "list_all (\<lambda>e. entry_raises json_loads e = None)
     [\<lparr>acc_id = ''a'', acc_name = ''f'', acc_arguments = ''{\"x\":1}''\<rparr>,
      \<lparr>acc_id = ''b'', acc_name = ''g'', acc_arguments = ''{\"x\":''\<rparr>,
      \<lparr>acc_id = ''c'', acc_name = [], acc_arguments = ''{\"x\":1}''\<rparr>,
      \<lparr>acc_id = ''d'', acc_name = ''h'', acc_arguments = []\<rparr>]"
    by (simp add: entry_raises_def raises_def json_loads_partial json_loads_whole)
  from residual_flush [of json_loads
     "[\<lparr>acc_id = ''a'', acc_name = ''f'', acc_arguments = ''{\"x\":1}''\<rparr>,
      \<lparr>acc_id = ''b'', acc_name = ''g'', acc_arguments = ''{\"x\":''\<rparr>,
      \<lparr>acc_id = ''c'', acc_name = [], acc_arguments = ''{\"x\":1}''\<rparr>,
      \<lparr>acc_id = ''d'', acc_name = ''h'', acc_arguments = []\<rparr>]"] ok
  show ?thesis
    by (simp add: parses_def parsed_def json_loads_partial json_loads_whole)
qed

text \<open>
  C4.  For a decoder that does not parse the empty string: after one call of
  \<open>convert_streaming_chunk_to_gemini\<close>, and after any sequence of calls that the loop of
  the service makes with the dict handed from one call to the next, the entry under the
  key of a slot is what the specification's step gives on the deltas of that slot alone,
  in their order, from the entry found there at the start.  So from the empty dict, and
  as long as the slot never completes, the entry holds the first non-empty identifier,
  the first non-empty name and the concatenation of the arguments of the slot's deltas;
  and the key is absent exactly when no delta of the slot came or the step removed the
  entry.  The key that the code gives a delta is the key of its slot, and two slots
  have the same key only if they are the same.
\<close>

theorem slot_accumulation:
  assumes "\<not> parses loads []"
  shows "(convert_streaming_chunk_to_gemini loads chunk acc = Inr (out, acc1) \<longrightarrow>
            map_of acc1 (slot_key i) =
              foldl (slot_step loads) (map_of acc (slot_key i)) (slot_deltas i [chunk]))
       \<and> (stream_chunks loads chunks acc = (yielded, Inr acc2) \<longrightarrow>
            map_of acc2 (slot_key i) =
              foldl (slot_step loads) (map_of acc (slot_key i)) (slot_deltas i chunks))
       \<and> (stream_chunks loads chunks [] = (yielded, Inr acc3)
            \<and> never_complete loads (slot_deltas i chunks) \<longrightarrow>
            map_of acc3 (slot_key i) =
              (if slot_deltas i chunks = [] then None
               else Some \<lparr> acc_id = first_nonempty (map delta_id (slot_deltas i chunks)),
                           acc_name = first_nonempty (map delta_name (slot_deltas i chunks)),
                           acc_arguments = concat (map delta_arguments (slot_deltas i chunks)) \<rparr>))
       \<and> tool_call_key tc = slot_key (slot_index tc)
       \<and> (slot_key i = slot_key j \<longleftrightarrow> i = j)"
proof -
  have a: "convert_streaming_chunk_to_gemini loads chunk acc = Inr (out, acc1) \<longrightarrow>
            map_of acc1 (slot_key i) =
              foldl (slot_step loads) (map_of acc (slot_key i)) (slot_deltas i [chunk])"
    using convert_streaming_chunk_slot [OF _ assms, of chunk acc out acc1 i]
    by (simp add: slot_deltas_single)
  have b: "stream_chunks loads chunks acc = (yielded, Inr acc2) \<longrightarrow>
            map_of acc2 (slot_key i) =
              foldl (slot_step loads) (map_of acc (slot_key i)) (slot_deltas i chunks)"
    using stream_chunks_slot [OF _ assms, of chunks acc yielded acc2 i] by simp
  have c: "stream_chunks loads chunks [] = (yielded, Inr acc3)
            \<and> never_complete loads (slot_deltas i chunks) \<longrightarrow>
            map_of acc3 (slot_key i) =
              (if slot_deltas i chunks = [] then None
               else Some \<lparr> acc_id = first_nonempty (map delta_id (slot_deltas i chunks)),
                           acc_name = first_nonempty (map delta_name (slot_deltas i chunks)),
                           acc_arguments = concat (map delta_arguments (slot_deltas i chunks)) \<rparr>)"
    using stream_chunks_slot [OF _ assms, of chunks "[]" yielded acc3 i]
      slot_step_never_complete [of loads "slot_deltas i chunks"]
    by (simp add: merged_def)
  from a b c show ?thesis
    by (simp add: tool_call_key_slot)
qed

theorem slot_accumulation_witness:
  "stream_chunks json_loads
     [tool_call_fragment (Some 0) (Some ''a'') (Some ''f'') (Some []),
      tool_call_fragment (Some 1) (Some ''b'') (Some ''g'') (Some ''{''),
      tool_call_fragment (Some 0) (Some ''zz'') (Some ''hh'') (Some ''{\"x\":'')] [] =
     ([], Inr [(''tool_0'', \<lparr>acc_id = ''a'', acc_name = ''f'', acc_arguments = ''{\"x\":''\<rparr>),
               (''tool_1'', \<lparr>acc_id = ''b'', acc_name = ''g'', acc_arguments = ''{''\<rparr>)])
   \<and> map_of [(''tool_0'', \<lparr>acc_id = ''a'', acc_name = ''f'', acc_arguments = ''{\"x\":''\<rparr>),
              (''tool_1'', \<lparr>acc_id = ''b'', acc_name = ''g'', acc_arguments = ''{''\<rparr>)]
        (slot_key 0) =
       Some \<lparr>acc_id = ''a'', acc_name = ''f'', acc_arguments = ''{\"x\":''\<rparr>"
proof -
  let ?CH = "[tool_call_fragment (Some 0) (Some ''a'') (Some ''f'') (Some []),
      tool_call_fragment (Some 1) (Some ''b'') (Some ''g'') (Some ''{''),
      tool_call_fragment (Some 0) (Some ''zz'') (Some ''hh'') (Some ''{\"x\":'')]"
  let ?D = "[(''tool_0'', \<lparr>acc_id = ''a'', acc_name = ''f'', acc_arguments = ''{\"x\":''\<rparr>),
               (''tool_1'', \<lparr>acc_id = ''b'', acc_name = ''g'', acc_arguments = ''{''\<rparr>)]"
  have run: "stream_chunks json_loads ?CH [] = ([], Inr ?D)"
    by (simp add: convert_tool_call_fragment Let_def entry_at_def entry_complete_def
          entry_raises_def raises_def parses_def accumulate_entry_def
          json_loads_partial json_loads_brace)
  have sd: "slot_deltas 0 ?CH =
      [\<lparr> dtc_index = Some 0, dtc_id = Some ''a'',
         dtc_function = Some \<lparr> df_name = Some ''f'', df_arguments = Some [] \<rparr> \<rparr>,
       \<lparr> dtc_index = Some 0, dtc_id = Some ''zz'',
         dtc_function = Some \<lparr> df_name = Some ''hh'', df_arguments = Some ''{\"x\":'' \<rparr> \<rparr>]"
    by (simp add: slot_deltas_def chunk_deltas_def tool_call_fragment_def slot_index_def)
  have nc: "never_complete json_loads (slot_deltas 0 ?CH)"
    unfolding sd
    by (simp add: never_complete_def completes_def merged_def parses_def
          delta_id_def delta_name_def delta_arguments_def json_loads_partial json_loads_empty)
  from slot_accumulation [OF not_parses_json_loads_empty, where chunks = ?CH and yielded = "[]"
      and ?acc3.0 = ?D and i = 0] run nc
  have "map_of ?D (slot_key 0) =
      (if slot_deltas 0 ?CH = [] then None
       else Some \<lparr> acc_id = first_nonempty (map delta_id (slot_deltas 0 ?CH)),
                   acc_name = first_nonempty (map delta_name (slot_deltas 0 ?CH)),
                   acc_arguments = concat (map delta_arguments (slot_deltas 0 ?CH)) \<rparr>)"
    by blast
  then have "map_of ?D (slot_key 0) =
      Some \<lparr>acc_id = ''a'', acc_name = ''f'', acc_arguments = ''{\"x\":''\<rparr>"
    unfolding sd by (simp add: delta_id_def delta_name_def delta_arguments_def)
  with run show ?thesis by blast
qed

lemma join_Cons: "join sep (x # xs) = x @ (if xs = [] then [] else sep @ join sep xs)"
  by (cases xs) simp_all

lemma json_dumps_object_head:
  "\<exists>r. json_dumps b (JObject ((k, v) # kvs)) = CHR ''{'' # dumps_string b k @ r"
  by (simp add: join_Cons)

lemma json_dumps_response_json:
  "\<exists>r. json_dumps b (response_json g) = CHR ''{'' # CHR 0x22 # CHR ''c'' # r"
  using json_dumps_object_head
    [of b "''candidates''" "JArray (map candidate_json (candidates g))"
        "(case promptFeedback g of None \<Rightarrow> [] | Some p \<Rightarrow> [(''promptFeedback'', p)])
         @ (case usageMetadata g of None \<Rightarrow> [] | Some u \<Rightarrow> [(''usageMetadata'', usage_json u)])"]
  by (auto simp: response_json_def dumps_string_def escape_char_def)

lemma json_dumps_error_response:
  "\<exists>r. json_dumps b (error_response m) = CHR ''{'' # CHR 0x22 # CHR ''e'' # r"
  using json_dumps_object_head
    [of b "''error''" "JObject [(''message'', JString m), (''type'', JString ''internal_error'')]" "[]"]
  by (auto simp: error_response_def dumps_string_def escape_char_def)

lemma json_dumps_frames_distinct:
  "json_dumps b (response_json g) \<noteq> json_dumps b (error_response m)"
  using json_dumps_response_json [of b g] json_dumps_error_response [of b m] by auto

lemma stream_chunks_append:
  "stream_chunks loads (pre @ rest) acc =
     (case stream_chunks loads pre acc of
        (ys, Inl m) \<Rightarrow> (ys, Inl m)
      | (ys, Inr acc') \<Rightarrow>
          (case stream_chunks loads rest acc' of (zs, r) \<Rightarrow> (ys @ zs, r)))"
  by (induction pre arbitrary: acc) (auto split: sum.splits prod.splits)

lemma stream_chunks_raise:
  assumes "stream_chunks loads pre [] = (ys, Inr acc)"
    and "convert_streaming_chunk_to_gemini loads c acc = Inl e"
  shows "stream_chunks loads (pre @ c # post) [] = (ys, Inl e)"
  using assms by (simp add: stream_chunks_append)

lemma accumulate_tool_call_raises:
  "accumulate_tool_call loads (acc, parts) tc = Inl e \<longleftrightarrow>
     entry_raises loads (accumulate_entry (entry_at acc (tool_call_key tc)) tc) = Some e"
  by (auto simp: accumulate_tool_call_cases Let_def split: option.splits)

text \<open>
  C9.  For a serialiser that never writes a converted chunk as it writes an error: when
  an exception leaves the body with the message \<open>e\<close>, the frames are those of the chunks
  yielded before it, followed by the one frame \<open>data: {"error": {"message": e, "type":
  "internal_error"}}\<close> and two newlines, and none of the frames before it is an error
  frame; when none does, no frame is an error frame.  An exception leaves the body when
  the client raises after the chunks it delivered, when it leaves the conversion of a
  chunk (the chunks after that one are not converted and the flush does not run), and
  when it leaves the flush; it leaves the conversion of a tool-call delta exactly when
  \<open>loads\<close> raises something else than \<open>JSONDecodeError\<close> on the updated buffer.
\<close>

theorem stream_error_frame:
  assumes "\<And>g m. dumps (response_json g) \<noteq> dumps (error_response m)"
  shows "(stream_body loads delivered failure = (yielded, Some e) \<longrightarrow>
            stream_generate_content loads dumps delivered failure =
              map (\<lambda>g. ''data: '' @ dumps (response_json g) @ [CHR 0x0A, CHR 0x0A]) yielded
              @ [''data: ''
                 @ dumps (JObject [(''error'',
                            JObject [(''message'', JString e),
                                     (''type'', JString ''internal_error'')])])
                 @ [CHR 0x0A, CHR 0x0A]]
            \<and> (\<forall>m. sse_frame dumps (error_response m)
                      \<notin> set (map (\<lambda>g. sse_frame dumps (response_json g)) yielded)))
       \<and> (stream_body loads delivered failure = (yielded, None) \<longrightarrow>
            stream_generate_content loads dumps delivered failure =
              map (\<lambda>g. sse_frame dumps (response_json g)) yielded
            \<and> (\<forall>m. sse_frame dumps (error_response m)
                      \<notin> set (stream_generate_content loads dumps delivered failure)))
       \<and> (stream_chunks loads delivered [] = (ys, Inr acc) \<longrightarrow>
            stream_body loads delivered (Some e) = (ys, Some e))
       \<and> (stream_chunks loads pre [] = (ys, Inr acc)
            \<and> convert_streaming_chunk_to_gemini loads c acc = Inl e \<longrightarrow>
            stream_body loads (pre @ c # post) failure = (ys, Some e))
       \<and> (stream_chunks loads delivered [] = (ys, Inr acc)
            \<and> flush_tool_calls loads (map snd acc) = (flushed, Some e) \<longrightarrow>
            stream_body loads delivered None = (ys @ flushed, Some e))
       \<and> (accumulate_tool_call loads (acc, parts) tc = Inl e \<longleftrightarrow>
            entry_raises loads (accumulate_entry (entry_at acc (tool_call_key tc)) tc) = Some e)"
proof -
  have distinct: "sse_frame dumps (error_response m)
      \<notin> set (map (\<lambda>g. sse_frame dumps (response_json g)) gs)" for m gs
    using assms by (auto simp: sse_frame_def dest: sym)
  have a: "stream_body loads delivered failure = (yielded, Some e) \<longrightarrow>
            stream_generate_content loads dumps delivered failure =
              map (\<lambda>g. ''data: '' @ dumps (response_json g) @ [CHR 0x0A, CHR 0x0A]) yielded
              @ [''data: ''
                 @ dumps (JObject [(''error'',
                            JObject [(''message'', JString e),
                                     (''type'', JString ''internal_error'')])])
                 @ [CHR 0x0A, CHR 0x0A]]"
    by (simp add: stream_generate_content_def sse_frame_def error_response_def)
  have b: "stream_body loads delivered failure = (yielded, None) \<longrightarrow>
            stream_generate_content loads dumps delivered failure =
              map (\<lambda>g. sse_frame dumps (response_json g)) yielded"
    by (simp add: stream_generate_content_def)
  have c: "stream_chunks loads delivered [] = (ys, Inr acc) \<longrightarrow>
            stream_body loads delivered (Some e) = (ys, Some e)"
    by (simp add: stream_body_def)
  have d: "stream_chunks loads pre [] = (ys, Inr acc)
            \<and> convert_streaming_chunk_to_gemini loads c acc = Inl e \<longrightarrow>
            stream_body loads (pre @ c # post) failure = (ys, Some e)"
  proof (intro impI, elim conjE)
    assume "stream_chunks loads pre [] = (ys, Inr acc)"
      and "convert_streaming_chunk_to_gemini loads c acc = Inl e"
    then have "stream_chunks loads (pre @ c # post) [] = (ys, Inl e)"
      by (rule stream_chunks_raise)
    then show "stream_body loads (pre @ c # post) failure = (ys, Some e)"
      by (simp add: stream_body_def)
  qed
  have f: "stream_chunks loads delivered [] = (ys, Inr acc)
            \<and> flush_tool_calls loads (map snd acc) = (flushed, Some e) \<longrightarrow>
            stream_body loads delivered None = (ys @ flushed, Some e)"
    by (simp add: stream_body_def)
  from a b c d f distinct accumulate_tool_call_raises [of loads acc parts tc e]
  show ?thesis by metis
qed

theorem stream_error_frame_witness:
  "stream_generate_content json_loads (json_dumps False)
     [\<lparr> chunk_choices =
         [\<lparr> sc_delta = Some \<lparr> delta_content = Some ''Hi'', delta_tool_calls = None \<rparr>,
            sc_finish_reason = None \<rparr>] \<rparr>]
     (Some ''boom'') =
   [''data: {\"candidates\": [{\"content\": {\"parts\": [{\"text\": \"Hi\"}], \"role\": \"model\"}, \"finishReason\": null, \"index\": 0, \"safetyRatings\": []}]}''
      @ [CHR 0x0A, CHR 0x0A],
    ''data: {\"error\": {\"message\": \"boom\", \"type\": \"internal_error\"}}''
      @ [CHR 0x0A, CHR 0x0A]]
   \<and> stream_generate_content (loads_raising ''too deep'') (json_dumps False)
     [\<lparr> chunk_choices =
         [\<lparr> sc_delta = Some \<lparr> delta_content = Some ''Hi'', delta_tool_calls = None \<rparr>,
            sc_finish_reason = None \<rparr>] \<rparr>,
      tool_call_fragment (Some 0) None (Some ''f'') (Some ''[['')]
     None =
   [''data: {\"candidates\": [{\"content\": {\"parts\": [{\"text\": \"Hi\"}], \"role\": \"model\"}, \"finishReason\": null, \"index\": 0, \"safetyRatings\": []}]}''
      @ [CHR 0x0A, CHR 0x0A],
    ''data: {\"error\": {\"message\": \"too deep\", \"type\": \"internal_error\"}}''
      @ [CHR 0x0A, CHR 0x0A]]"
proof -
  let ?hi = "\<lparr> chunk_choices =
         [\<lparr> sc_delta = Some \<lparr> delta_content = Some ''Hi'', delta_tool_calls = None \<rparr>,
            sc_finish_reason = None \<rparr>] \<rparr>"
  let ?g = "\<lparr> candidates =
               [\<lparr> out_parts = [TextPart ''Hi''], out_role = ''model'', finishReason = None,
                  cand_index = 0, safetyRatings = JArray [] \<rparr>],
             promptFeedback = None, usageMetadata = None \<rparr>"
  have d: "\<And>g m. json_dumps False (response_json g) \<noteq> json_dumps False (error_response m)"
    by (rule json_dumps_frames_distinct)
  have hi: "convert_streaming_chunk_to_gemini loads ?hi [] = Inr (Some ?g, [])" for loads
    by (simp add: convert_streaming_chunk_to_gemini_def map_stream_finish_reason_def)
  have body1: "stream_body json_loads [?hi] (Some ''boom'') = ([?g], Some ''boom'')"
    by (simp add: stream_body_def hi)
  have pre: "stream_chunks (loads_raising ''too deep'') [?hi] [] = ([?g], Inr [])"
    by (simp add: hi)
  have raise: "convert_streaming_chunk_to_gemini (loads_raising ''too deep'')
      (tool_call_fragment (Some 0) None (Some ''f'') (Some ''[['')) [] = Inl ''too deep''"
    by (simp add: convert_tool_call_fragment Let_def entry_at_def entry_raises_def raises_def
          accumulate_entry_def loads_raising_def)
  from stream_error_frame [OF d, where loads = json_loads and delivered = "[?hi]"
      and failure = "Some ''boom''" and yielded = "[?g]" and e = "''boom''"] body1
  have out1: "stream_generate_content json_loads (json_dumps False) [?hi] (Some ''boom'') =
      map (\<lambda>g. ''data: '' @ json_dumps False (response_json g) @ [CHR 0x0A, CHR 0x0A]) [?g]
      @ [''data: ''
         @ json_dumps False (JObject [(''error'',
              JObject [(''message'', JString ''boom''), (''type'', JString ''internal_error'')])])
         @ [CHR 0x0A, CHR 0x0A]]"
    by blast
  from stream_error_frame [OF d, where loads = "loads_raising ''too deep''" and pre = "[?hi]"
      and ys = "[?g]" and acc = "[]" and e = "''too deep''"
      and c = "tool_call_fragment (Some 0) None (Some ''f'') (Some ''[['')"
      and post = "[]" and failure = None] pre raise
  have body2: "stream_body (loads_raising ''too deep'')
      ([?hi] @ tool_call_fragment (Some 0) None (Some ''f'') (Some ''[['') # []) None
      = ([?g], Some ''too deep'')"
    by blast
  from stream_error_frame [OF d, where loads = "loads_raising ''too deep''"
      and delivered = "[?hi] @ tool_call_fragment (Some 0) None (Some ''f'') (Some ''[['') # []"
      and failure = None and yielded = "[?g]" and e = "''too deep''"] body2
  have out2: "stream_generate_content (loads_raising ''too deep'') (json_dumps False)
      ([?hi] @ tool_call_fragment (Some 0) None (Some ''f'') (Some ''[['') # []) None =
      map (\<lambda>g. ''data: '' @ json_dumps False (response_json g) @ [CHR 0x0A, CHR 0x0A]) [?g]
      @ [''data: ''
         @ json_dumps False (JObject [(''error'',
              JObject [(''message'', JString ''too deep''), (''type'', JString ''internal_error'')])])
         @ [CHR 0x0A, CHR 0x0A]]"
    by blast
  from out1 out2 show ?thesis
    by (simp add: response_json_def candidate_json_def part_json_def dumps_simps)
qed

section \<open>Properties of the response converter\<close>

lemma match_body_sound:
  "match_body acc r = Some b \<Longrightarrow>
     \<exists>body. b = acc @ body \<and> (r = body @ CHR 0x0A # ''```'' \<or> r = body @ CHR 0x0A # ''```'' @ [CHR 0x0A])"
proof (induction r arbitrary: acc)
  case Nil
  then show ?case by simp
next
  case (Cons c r)
  show ?case
  proof (cases "fence_end (c # r)")
    case True
    with Cons.prems have "b = acc" by simp
    with True show ?thesis by (auto simp: fence_end_def)
  next
    case False
    with Cons.prems have "match_body (acc @ [c]) r = Some b" by simp
    from Cons.IH [OF this] obtain body where
      "b = (acc @ [c]) @ body"
      "r = body @ CHR 0x0A # ''```'' \<or> r = body @ CHR 0x0A # ''```'' @ [CHR 0x0A]"
      by blast
    then show ?thesis
      by (intro exI [of _ "c # body"]) auto
  qed
qed

lemma match_body_complete: "match_body acc (body @ CHR 0x0A # ''```'') \<noteq> None"
  by (induction body arbitrary: acc) (auto simp: fence_end_def)

lemma match_ws_sound:
  "match_ws r = Some b \<Longrightarrow>
     \<exists>ws. list_all is_space ws
       \<and> (r = ws @ [CHR 0x0A] @ b @ CHR 0x0A # ''```''
          \<or> r = ws @ [CHR 0x0A] @ b @ CHR 0x0A # ''```'' @ [CHR 0x0A])"
proof (induction r)
  case Nil
  then show ?case by simp
next
  case (Cons c r)
  from Cons.prems have sp: "is_space c" by (simp split: if_splits)
  show ?case
  proof (cases "match_ws r")
    case (Some b')
    with Cons.prems sp have "b' = b" by simp
    with Some Cons.IH obtain ws where
      "list_all is_space ws"
      "r = ws @ [CHR 0x0A] @ b @ CHR 0x0A # ''```''
         \<or> r = ws @ [CHR 0x0A] @ b @ CHR 0x0A # ''```'' @ [CHR 0x0A]"
      by blast
    with sp show ?thesis
      by (intro exI [of _ "c # ws"]) auto
  next
    case None
    with Cons.prems sp have c: "c = CHR 0x0A" and mb: "match_body [] r = Some b"
      by (simp_all split: if_splits)
    from match_body_sound [OF mb] c show ?thesis
      by (intro exI [of _ "[]"]) auto
  qed
qed

lemma match_ws_complete:
  "list_all is_space ws \<Longrightarrow> match_ws (ws @ [CHR 0x0A] @ body @ CHR 0x0A # ''```'') \<noteq> None"
proof (induction ws)
  case Nil
  have "is_space (CHR 0x0A)" by (simp add: is_space_def)
  then show ?case
    using match_body_complete [of "[]" body] by (auto split: option.splits)
next
  case (Cons w ws)
  then show ?case by (auto split: option.splits)
qed

lemma strip_last_not_space: "strip s = xs @ [c] \<Longrightarrow> \<not> is_space c"
proof -
  assume a: "strip s = xs @ [c]"
  have "dropWhile is_space (rev (dropWhile is_space s)) = rev (strip s)"
    by (simp add: strip_def)
  with a have "dropWhile is_space (rev (dropWhile is_space s)) = c # rev xs"
    by simp
  then show ?thesis
    by (simp add: dropWhile_eq_Cons_conv)
qed

lemma strip_prefix_Some: "strip_prefix p s = Some r \<Longrightarrow> s = p @ r"
  by (auto simp: strip_prefix_def split: if_splits) (metis append_take_drop_id)

lemma strip_prefix_append [simp]: "strip_prefix p (p @ r) = Some r"
  by (simp add: strip_prefix_def)

lemma json_pattern_match_sound:
  assumes "json_pattern_match (strip s) = Some b"
  shows "\<exists>ws. list_all is_space ws \<and> strip s = ''```json'' @ ws @ [CHR 0x0A] @ b @ [CHR 0x0A] @ ''```''"
proof -
  from assms obtain r where sp: "strip_prefix ''```json'' (strip s) = Some r"
    and m: "match_ws r = Some b"
    by (cases "strip_prefix ''```json'' (strip s)") (simp_all add: json_pattern_match_def)
  from strip_prefix_Some [OF sp] have r: "strip s = ''```json'' @ r" .
  from match_ws_sound [OF m] obtain ws where ws: "list_all is_space ws"
    and alt: "r = ws @ [CHR 0x0A] @ b @ CHR 0x0A # ''```''
              \<or> r = ws @ [CHR 0x0A] @ b @ CHR 0x0A # ''```'' @ [CHR 0x0A]"
    by blast
  have "r \<noteq> ws @ [CHR 0x0A] @ b @ CHR 0x0A # ''```'' @ [CHR 0x0A]"
  proof
    assume "r = ws @ [CHR 0x0A] @ b @ CHR 0x0A # ''```'' @ [CHR 0x0A]"
    with r have "strip s = (''```json'' @ ws @ [CHR 0x0A] @ b @ CHR 0x0A # ''```'') @ [CHR 0x0A]"
      by simp
    from strip_last_not_space [OF this] show False by (simp add: is_space_def)
  qed
  with alt have "r = ws @ [CHR 0x0A] @ b @ CHR 0x0A # ''```''" by blast
  with r have "strip s = ''```json'' @ ws @ [CHR 0x0A] @ b @ [CHR 0x0A] @ ''```''" by simp
  with ws show ?thesis by blast
qed

lemma json_pattern_match_complete:
  assumes "is_json_fence t"
  shows "json_pattern_match t \<noteq> None"
proof -
  from assms obtain ws body where ws: "list_all is_space ws"
    and t: "t = ''```json'' @ (ws @ [CHR 0x0A] @ body @ CHR 0x0A # ''```'')"
    by (auto simp: is_json_fence_def)
  have "json_pattern_match t = match_ws (ws @ [CHR 0x0A] @ body @ CHR 0x0A # ''```'')"
    unfolding json_pattern_match_def t strip_prefix_append by simp
  with match_ws_complete [OF ws] show ?thesis by simp
qed

lemma clean_markdown_json_not_fence:
  assumes "\<not> is_json_fence (strip c)"
  shows "clean_markdown_json c = c"
proof (cases "json_pattern_match (strip c)")
  case None
  then show ?thesis by (simp add: clean_markdown_json_def)
next
  case (Some b)
  from json_pattern_match_sound [OF this] have "is_json_fence (strip c)"
    unfolding is_json_fence_def by blast
  with assms show ?thesis by simp
qed

lemma clean_markdown_json_fence:
  assumes "is_json_fence (strip c)"
  shows "\<exists>ws. list_all is_space ws
       \<and> strip c = ''```json'' @ ws @ [CHR 0x0A] @ clean_markdown_json c @ [CHR 0x0A] @ ''```''"
proof -
  from json_pattern_match_complete [OF assms] obtain b where
    b: "json_pattern_match (strip c) = Some b" by blast
  then have "clean_markdown_json c = b" by (simp add: clean_markdown_json_def)
  with json_pattern_match_sound [OF b] show ?thesis by simp
qed

lemma clean_markdown_json_example:
  "clean_markdown_json (''```json'' @ [CHR 0x0A] @ ''{\"a\":1}'' @ [CHR 0x0A] @ ''```'') = ''{\"a\":1}''"
  by (simp add: clean_markdown_json_def json_pattern_match_def strip_prefix_def strip_def
        is_space_def fence_end_def)

lemma clean_markdown_json_empty: "clean_markdown_json [] = []"
  by (simp add: clean_markdown_json_def json_pattern_match_def strip_prefix_def strip_def)

text \<open>
  C6.  For a response whose first choice has a message with text \<open>c\<close> and no tool
  calls, the conversion succeeds and the text of the parts is \<open>clean_markdown_json c\<close>
  (in one text part, or in none when \<open>c\<close> is empty).  That is \<open>{"a":1}\<close> when \<open>c\<close> is
  the fence around \<open>{"a":1}\<close>, and \<open>c\<close> itself whenever the stripped \<open>c\<close> is not a
  fenced block.
\<close>

theorem fenced_json_unwrapped:
  assumes "rsp_choices response = choice # others"
    and "msg_content (ch_message choice) = Some c"
    and "msg_tool_calls (ch_message choice) = None"
  shows "(\<exists>g. convert_response_to_gemini loads response = Inr g
            \<and> map out_parts (candidates g) =
                [if c = [] then [] else [TextPart (clean_markdown_json c)]]
            \<and> map (parts_text \<circ> out_parts) (candidates g) = [clean_markdown_json c])
         \<and> (c = ''```json'' @ [CHR 0x0A] @ ''{\"a\":1}'' @ [CHR 0x0A] @ ''```''
              \<longrightarrow> clean_markdown_json c = ''{\"a\":1}'')
         \<and> (\<not> is_json_fence (strip c) \<longrightarrow> clean_markdown_json c = c)"
proof -
  have "convert_response_to_gemini loads response =
      Inr \<lparr> candidates =
              [\<lparr> out_parts = (if c = [] then [] else [TextPart (clean_markdown_json c)]),
                 out_role = ''model'',
                 finishReason = Some (map_finish_reason (ch_finish_reason choice)),
                 cand_index = 0, safetyRatings = JNull \<rparr>],
            promptFeedback = Some (JObject [(''safetyRatings'', JNull)]),
            usageMetadata =
              (case rsp_usage response of
                 None \<Rightarrow> None
               | Some u \<Rightarrow>
                   Some \<lparr> promptTokenCount = prompt_tokens u,
                          candidatesTokenCount = completion_tokens u,
                          totalTokenCount = total_tokens u,
                          promptTokensDetails = [(''TEXT'', prompt_tokens u)] \<rparr>) \<rparr>"
    using assms by (simp add: convert_response_to_gemini_def Let_def)
  moreover have "parts_text (if c = [] then [] else [TextPart (clean_markdown_json c)])
      = clean_markdown_json c"
    by (simp add: parts_text_def clean_markdown_json_empty)
  ultimately have "\<exists>g. convert_response_to_gemini loads response = Inr g
            \<and> map out_parts (candidates g) =
                [if c = [] then [] else [TextPart (clean_markdown_json c)]]
            \<and> map (parts_text \<circ> out_parts) (candidates g) = [clean_markdown_json c]"
    by simp
  then show ?thesis
    using clean_markdown_json_example clean_markdown_json_not_fence by blast
qed

theorem fenced_json_unwrapped_witness:
  "(\<exists>g. convert_response_to_gemini json_loads
            \<lparr> rsp_choices =
                [\<lparr> ch_message =
                     \<lparr> msg_content = Some (''```json'' @ [CHR 0x0A] @ ''{\"a\":1}'' @ [CHR 0x0A] @ ''```''),
                       msg_tool_calls = None \<rparr>,
                   ch_finish_reason = Some ''stop'' \<rparr>],
              rsp_usage = None \<rparr> = Inr g
        \<and> map out_parts (candidates g) = [[TextPart ''{\"a\":1}'']])
   \<and> (\<exists>g. convert_response_to_gemini json_loads
            \<lparr> rsp_choices =
                [\<lparr> ch_message = \<lparr> msg_content = Some ''Hello!'', msg_tool_calls = None \<rparr>,
                   ch_finish_reason = Some ''stop'' \<rparr>],
              rsp_usage = None \<rparr> = Inr g
        \<and> map out_parts (candidates g) = [[TextPart ''Hello!'']])"
proof -
  have nf: "\<not> is_json_fence (strip ''Hello!'')"
    by (simp add: is_json_fence_def strip_def is_space_def)
  have a: "\<exists>g. convert_response_to_gemini json_loads
            \<lparr> rsp_choices =
                [\<lparr> ch_message =
                     \<lparr> msg_content = Some (''```json'' @ [CHR 0x0A] @ ''{\"a\":1}'' @ [CHR 0x0A] @ ''```''),
                       msg_tool_calls = None \<rparr>,
                   ch_finish_reason = Some ''stop'' \<rparr>],
              rsp_usage = None \<rparr> = Inr g
        \<and> map out_parts (candidates g) = [[TextPart ''{\"a\":1}'']]"
    using fenced_json_unwrapped [of "\<lparr> rsp_choices =
                [\<lparr> ch_message =
                     \<lparr> msg_content = Some (''```json'' @ [CHR 0x0A] @ ''{\"a\":1}'' @ [CHR 0x0A] @ ''```''),
                       msg_tool_calls = None \<rparr>,
                   ch_finish_reason = Some ''stop'' \<rparr>],
              rsp_usage = None \<rparr>"
          "\<lparr> ch_message =
                     \<lparr> msg_content = Some (''```json'' @ [CHR 0x0A] @ ''{\"a\":1}'' @ [CHR 0x0A] @ ''```''),
                       msg_tool_calls = None \<rparr>,
                   ch_finish_reason = Some ''stop'' \<rparr>" "[]"
          "''```json'' @ [CHR 0x0A] @ ''{\"a\":1}'' @ [CHR 0x0A] @ ''```''" json_loads]
    by auto
  have b: "\<exists>g. convert_response_to_gemini json_loads
            \<lparr> rsp_choices =
                [\<lparr> ch_message = \<lparr> msg_content = Some ''Hello!'', msg_tool_calls = None \<rparr>,
                   ch_finish_reason = Some ''stop'' \<rparr>],
              rsp_usage = None \<rparr> = Inr g
        \<and> map out_parts (candidates g) = [[TextPart ''Hello!'']]"
    using nf fenced_json_unwrapped [of "\<lparr> rsp_choices =
                [\<lparr> ch_message = \<lparr> msg_content = Some ''Hello!'', msg_tool_calls = None \<rparr>,
                   ch_finish_reason = Some ''stop'' \<rparr>],
              rsp_usage = None \<rparr>"
          "\<lparr> ch_message = \<lparr> msg_content = Some ''Hello!'', msg_tool_calls = None \<rparr>,
                   ch_finish_reason = Some ''stop'' \<rparr>" "[]" "''Hello!''" json_loads]
    by auto
  from a b show ?thesis by blast
qed

section \<open>Finish reasons\<close>

lemma map_finish_reason_table:
  "map_finish_reason r =
     (if r = Some ''length'' then ''MAX_TOKENS''
      else if r = Some ''content_filter'' then ''SAFETY''
      else ''STOP'')"
  by (auto simp: map_finish_reason_def finish_reason_mapping_def split: option.splits)

lemma map_stream_finish_reason_table:
  "map_stream_finish_reason r =
     (if r = Some ''stop'' \<or> r = Some ''tool_calls'' then Some ''STOP''
      else if r = Some ''length'' then Some ''MAX_TOKENS''
      else if r = Some ''content_filter'' then Some ''SAFETY''
      else None)"
  by (cases r) (auto simp: map_stream_finish_reason_def stream_finish_reason_mapping_def truthy_def)

text \<open>
  C5.  The streaming path does not use the table of the other path: its own table has no
  entry \<open>function_call\<close> and its lookup has no default.  A chunk with text and the
  finish reason \<open>function_call\<close> is converted to a response whose \<open>finishReason\<close> is
  absent, and so is any finish reason outside its four entries; the non-streaming path
  gives \<open>STOP\<close> for both.
\<close>

theorem stream_finish_reason_no_default:
  "convert_streaming_chunk_to_gemini json_loads
     \<lparr> chunk_choices =
         [\<lparr> sc_delta = Some \<lparr> delta_content = Some ''x'', delta_tool_calls = None \<rparr>,
            sc_finish_reason = Some ''function_call'' \<rparr>] \<rparr> [] =
     Inr (Some \<lparr> candidates =
               [\<lparr> out_parts = [TextPart ''x''], out_role = ''model'', finishReason = None,
                  cand_index = 0, safetyRatings = JArray [] \<rparr>],
             promptFeedback = None, usageMetadata = None \<rparr>, [])
   \<and> map_stream_finish_reason (Some ''eos'') = None
   \<and> map_finish_reason (Some ''function_call'') = ''STOP''
   \<and> map_finish_reason (Some ''eos'') = ''STOP''"
  by (simp add: convert_streaming_chunk_to_gemini_def map_stream_finish_reason_table
        map_finish_reason_table)

end
